theory Spec2Isabelle
  imports Complex_Main
begin

section \<open>Quadratic voting (app/services/governance.py)\<close>

text \<open>
  Python floats are modelled as real numbers throughout: \<open>math.sqrt\<close> is the real
  square root, \<open>+\<close>, \<open>/\<close> and the comparisons are exact.  A vote is the dictionary
  \<open>{"voter_id": ..., "tokens_spent": ..., "vote": ...}\<close> the tally reads.
\<close>

record vote =
  voter_id :: string
  tokens_spent :: int
  vote_dir :: string

definition calculate_vote_power :: "int \<Rightarrow> real" where
  "calculate_vote_power tokens =
     (if tokens \<le> 0 then 0 else sqrt (real_of_int tokens))"

text \<open>The loop of \<open>tally_votes\<close>, carrying \<open>(for_power, against_power)\<close>.\<close>

fun tally_loop :: "vote list \<Rightarrow> real \<times> real \<Rightarrow> real \<times> real" where
  "tally_loop [] acc = acc"
| "tally_loop (v # vs) (for_power, against_power) =
     (let power = calculate_vote_power (tokens_spent v) in
      if vote_dir v = ''for'' then tally_loop vs (for_power + power, against_power)
      else if vote_dir v = ''against'' then tally_loop vs (for_power, against_power + power)
      else tally_loop vs (for_power, against_power))"

text \<open>
  \<open>round(x, 2)\<close>: Python rounds to the nearest multiple of \<open>1/100\<close>, a tie going to
  the even neighbour.
\<close>

definition round_half_even :: "real \<Rightarrow> int" where
  "round_half_even y =
     (let f = \<lfloor>y\<rfloor>; d = y - of_int f in
      if d < 1 / 2 then f
      else if d > 1 / 2 then f + 1
      else if even f then f else f + 1)"

definition py_round2 :: "real \<Rightarrow> real" where
  "py_round2 x = of_int (round_half_even (x * 100)) / 100"

record tally_result =
  for_power :: real
  against_power :: real
  total_power :: real
  approval_percentage :: real
  total_voters :: nat
  quorum_met :: bool
  approved :: bool

definition tally_votes :: "real \<Rightarrow> vote list \<Rightarrow> tally_result" where
  "tally_votes quorum_percentage votes =
     (let total_voters = length votes;
          (for_power, against_power) = tally_loop votes (0, 0);
          total_power = for_power + against_power;
          approval_percentage =
            (if total_power > 0 then for_power / total_power * 100 else 0);
          quorum_met = (total_voters \<ge> 3)
      in \<lparr> for_power = py_round2 for_power,
           against_power = py_round2 against_power,
           total_power = py_round2 total_power,
           approval_percentage = py_round2 approval_percentage,
           total_voters = total_voters,
           quorum_met = quorum_met,
           approved = (quorum_met \<and> approval_percentage \<ge> quorum_percentage) \<rparr>)"

record vote_impact =
  current_approval :: real
  new_approval :: real
  your_vote_power :: real
  impact :: real
  would_approve :: bool

definition simulate_vote_impact ::
  "real \<Rightarrow> vote list \<Rightarrow> int \<Rightarrow> string \<Rightarrow> vote_impact" where
  "simulate_vote_impact quorum_percentage current_votes new_tokens vote_direction =
     (let current_result = tally_votes quorum_percentage current_votes;
          simulated_votes = current_votes @
            [\<lparr> voter_id = ''simulated'', tokens_spent = new_tokens,
               vote_dir = vote_direction \<rparr>];
          new_result = tally_votes quorum_percentage simulated_votes
      in \<lparr> current_approval = approval_percentage current_result,
           new_approval = approval_percentage new_result,
           your_vote_power = calculate_vote_power new_tokens,
           impact = approval_percentage new_result - approval_percentage current_result,
           would_approve = approved new_result \<rparr>)"


text \<open>
  Quantities in the words of the specification, against which the loop is compared:
  the summed power of the votes cast in one direction, the approval share in percent,
  and the number of distinct voter identifiers.
\<close>

definition direction_power :: "string \<Rightarrow> vote list \<Rightarrow> real" where
  "direction_power d votes =
     sum_list (map (\<lambda>v. calculate_vote_power (tokens_spent v))
                   (filter (\<lambda>v. vote_dir v = d) votes))"

definition approval_share :: "vote list \<Rightarrow> real" where
  "approval_share votes =
     (let f = direction_power ''for'' votes;
          t = f + direction_power ''against'' votes
      in if t > 0 then f / t * 100 else 0)"

definition distinct_voters :: "vote list \<Rightarrow> nat" where
  "distinct_voters votes = length (remdups (map voter_id votes))"

section \<open>Python values and exceptions\<close>

text \<open>
  The agents exchange JSON-like dictionaries.  A dictionary is an association list whose
  first entry for a key is the one \<open>d[k]\<close> and \<open>d.get(k)\<close> read.  An f-string is kept as
  \<open>PFmt template values\<close>: its template and the values it interpolates, not rendered.
\<close>

datatype pyval =
    PNone
  | PBool bool
  | PInt int
  | PFloat real
  | PStr string
  | PFmt string "pyval list"
  | PList "pyval list"
  | PDict "(string \<times> pyval) list"

type_synonym pydict = "(string \<times> pyval) list"

datatype py_error =
    AttributeError
  | KeyError
  | TypeError
  | ValidationError
  | CircuitOpenError
  | Raised string

text \<open>\<open>bool(v)\<close>: the truth value Python's \<open>if v\<close> and \<open>not v\<close> use.\<close>

fun py_truthy :: "pyval \<Rightarrow> bool" where
  "py_truthy PNone = False"
| "py_truthy (PBool b) = b"
| "py_truthy (PInt i) = (i \<noteq> 0)"
| "py_truthy (PFloat r) = (r \<noteq> 0)"
| "py_truthy (PStr s) = (s \<noteq> [])"
| "py_truthy (PFmt t vs) = (t \<noteq> [])"
| "py_truthy (PList xs) = (xs \<noteq> [])"
| "py_truthy (PDict d) = (d \<noteq> [])"

text \<open>\<open>d.get(k, default)\<close> on a dictionary, and \<open>d.get(k)\<close> with default \<open>None\<close>.\<close>

definition dict_get :: "pydict \<Rightarrow> string \<Rightarrow> pyval \<Rightarrow> pyval" where
  "dict_get d k dflt = (case map_of d k of None \<Rightarrow> dflt | Some v \<Rightarrow> v)"

text \<open>
  \<open>v.get(k, default)\<close> on an arbitrary value: only a dictionary has the method, any
  other value raises \<open>AttributeError\<close>.
\<close>

fun py_get :: "pyval \<Rightarrow> string \<Rightarrow> pyval \<Rightarrow> py_error + pyval" where
  "py_get (PDict d) k dflt = Inr (dict_get d k dflt)"
| "py_get _ k dflt = Inl AttributeError"

text \<open>\<open>v[k]\<close> on a value: \<open>KeyError\<close> for a missing key, \<open>TypeError\<close> off a dictionary.\<close>

fun py_index :: "pyval \<Rightarrow> string \<Rightarrow> py_error + pyval" where
  "py_index (PDict d) k = (case map_of d k of None \<Rightarrow> Inl KeyError | Some v \<Rightarrow> Inr v)"
| "py_index _ k = Inl TypeError"

text \<open>The numeric value of a number (\<open>bool\<close> is a subtype of \<open>int\<close> in Python).\<close>

fun py_num :: "pyval \<Rightarrow> real option" where
  "py_num (PInt i) = Some (of_int i)"
| "py_num (PFloat r) = Some r"
| "py_num (PBool b) = Some (if b then 1 else 0)"
| "py_num _ = None"

text \<open>
  \<open>min(a, b, c)\<close> with a float first argument: the first of the smallest values; a
  value that is not a number cannot be ordered against the float and raises.
\<close>

definition py_min3 :: "real \<Rightarrow> pyval \<Rightarrow> pyval \<Rightarrow> py_error + pyval" where
  "py_min3 a b c =
     (case (py_num b, py_num c) of
        (Some nb, Some nc) \<Rightarrow>
          (let (m, mv) = (if nb < a then (nb, b) else (a, PFloat a)) in
           Inr (if nc < m then c else mv))
      | _ \<Rightarrow> Inl TypeError)"

section \<open>Reasoning traces (app/ai/engine.py)\<close>

datatype thought_type =
  OBSERVATION | ANALYSIS | HYPOTHESIS | ACTION | REFLECTION | CONCLUSION

text \<open>
  A step and a trace, without their wall-clock fields (\<open>timestamp\<close>, \<open>created_at\<close>) and
  without \<open>metadata\<close>, which no caller sets.  Texts are the f-string templates.
\<close>

record reasoning_step =
  step_number :: nat
  thought_type :: thought_type
  content :: string
  confidence :: real

record reasoning_trace =
  trace_id :: string
  agent_name :: string
  task :: string
  steps :: "reasoning_step list"
  final_decision :: "string option"
  total_confidence :: real
  duration_ms :: int

text \<open>
  \<open>BaseAgent.create_trace\<close>.  The identifier is the agent name (the source appends the
  creation time).
\<close>

definition create_trace :: "string \<Rightarrow> string \<Rightarrow> reasoning_trace" where
  "create_trace name tsk =
     \<lparr> trace_id = name, agent_name = name, task = tsk, steps = [],
       final_decision = None, total_confidence = 0, duration_ms = 0 \<rparr>"

text \<open>
  \<open>add_thought\<close>: the step model validates \<open>confidence\<close> with \<open>Field(ge=0, le=1)\<close>, so a
  confidence outside \<open>[0, 1]\<close> raises before anything is appended.
\<close>

definition add_thought ::
  "thought_type \<Rightarrow> string \<Rightarrow> real \<Rightarrow> reasoning_trace \<Rightarrow> py_error + reasoning_trace" where
  "add_thought ty txt conf tr =
     (if 0 \<le> conf \<and> conf \<le> 1
      then Inr (tr \<lparr> steps := steps tr @
                  [\<lparr> step_number = length (steps tr) + 1, thought_type = ty,
                     content = txt, confidence = conf \<rparr>] \<rparr>)
      else Inl ValidationError)"

text \<open>The helpers; their default confidences are 0.9, 0.8, 0.7, 0.85, 0.75 and 0.85.\<close>

definition observe :: "string \<Rightarrow> real \<Rightarrow> reasoning_trace \<Rightarrow> py_error + reasoning_trace" where
  "observe txt conf tr = add_thought OBSERVATION txt conf tr"

definition analyze :: "string \<Rightarrow> real \<Rightarrow> reasoning_trace \<Rightarrow> py_error + reasoning_trace" where
  "analyze txt conf tr = add_thought ANALYSIS txt conf tr"

definition hypothesize :: "string \<Rightarrow> real \<Rightarrow> reasoning_trace \<Rightarrow> py_error + reasoning_trace" where
  "hypothesize txt conf tr = add_thought HYPOTHESIS txt conf tr"

definition act :: "string \<Rightarrow> real \<Rightarrow> reasoning_trace \<Rightarrow> py_error + reasoning_trace" where
  "act txt conf tr = add_thought ACTION txt conf tr"

definition reflect :: "string \<Rightarrow> real \<Rightarrow> reasoning_trace \<Rightarrow> py_error + reasoning_trace" where
  "reflect txt conf tr = add_thought REFLECTION txt conf tr"

definition conclude :: "string \<Rightarrow> real \<Rightarrow> reasoning_trace \<Rightarrow> py_error + reasoning_trace" where
  "conclude decision conf tr =
     (case add_thought CONCLUSION decision conf tr of
        Inl e \<Rightarrow> Inl e
      | Inr tr' \<Rightarrow>
          Inr (tr' \<lparr> final_decision := Some decision,
                    total_confidence :=
                      sum_list (map confidence (steps tr')) / real (length (steps tr')) \<rparr>))"

text \<open>
  The calls an agent makes on a trace, and the traces an execution can hold: a fresh
  trace, and any trace one successful call away from such a trace.  A call that raises
  leaves the trace as it was.
\<close>

datatype trace_call =
    Observe string real
  | Analyze string real
  | Hypothesize string real
  | Act string real
  | Reflect string real
  | Conclude string real

fun apply_call :: "trace_call \<Rightarrow> reasoning_trace \<Rightarrow> py_error + reasoning_trace" where
  "apply_call (Observe txt c) tr = observe txt c tr"
| "apply_call (Analyze txt c) tr = analyze txt c tr"
| "apply_call (Hypothesize txt c) tr = hypothesize txt c tr"
| "apply_call (Act txt c) tr = act txt c tr"
| "apply_call (Reflect txt c) tr = reflect txt c tr"
| "apply_call (Conclude txt c) tr = conclude txt c tr"

inductive produced :: "reasoning_trace \<Rightarrow> bool" where
  fresh: "produced (create_trace name tsk)"
| call: "produced tr \<Longrightarrow> apply_call c tr = Inr tr' \<Longrightarrow> produced tr'"

text \<open>
  The arithmetic mean of the step confidences (0 for no steps), and the steps up to and
  including the last conclusion step.
\<close>

definition mean_confidence :: "reasoning_step list \<Rightarrow> real" where
  "mean_confidence ss =
     (if ss = [] then 0 else sum_list (map confidence ss) / real (length ss))"

definition upto_last_conclusion :: "reasoning_step list \<Rightarrow> reasoning_step list" where
  "upto_last_conclusion ss =
     rev (dropWhile (\<lambda>s. thought_type s \<noteq> CONCLUSION) (rev ss))"

text \<open>
  One step of a \<open>try\<close> body: a trace call followed by the rest of the body.  The pair
  returned is the trace as the body left it and what the body returned or raised.
\<close>

definition then_do ::
  "(reasoning_trace \<Rightarrow> py_error + reasoning_trace) \<Rightarrow>
   (reasoning_trace \<Rightarrow> reasoning_trace \<times> (py_error + 'a)) \<Rightarrow>
   reasoning_trace \<Rightarrow> reasoning_trace \<times> (py_error + 'a)" where
  "then_do step rest tr =
     (case step tr of Inl e \<Rightarrow> (tr, Inl e) | Inr tr' \<Rightarrow> rest tr')"

text \<open>
  A continuation of a \<open>try\<close> body keeps traces within the produced ones.
\<close>

definition keeps :: "(reasoning_trace \<Rightarrow> reasoning_trace \<times> 'a) \<Rightarrow> bool" where
  "keeps k = (\<forall>tr. produced tr \<longrightarrow> produced (fst (k tr)))"


section \<open>Agent context and results (app/ai/engine.py)\<close>

text \<open>
  A diary entry as the agents read it: \<open>type\<close>, \<open>amount\<close> (a JSON number, \<open>None\<close> when
  the key is missing or null) and \<open>recorded_at\<close> parsed to microseconds since the epoch
  (\<open>None\<close> when the key is missing or \<open>datetime.fromisoformat\<close> raises).
\<close>

record diary_entry =
  entry_type :: "string option"
  entry_amount :: "real option"
  recorded_at :: "int option"

record agent_context =
  user_id :: string
  user_profile :: pydict
  trust_score :: int
  saathi_balance :: real
  circles :: "pydict list"
  loans :: "pydict list"
  vouches :: "pydict list"
  financial_diary :: "diary_entry list"
  language :: string
  current_request :: "string option"
  agent_results :: pydict
  reasoning_traces :: "reasoning_trace list"

definition add_trace :: "reasoning_trace \<Rightarrow> agent_context \<Rightarrow> agent_context" where
  "add_trace tr ctx = ctx \<lparr> reasoning_traces := reasoning_traces ctx @ [tr] \<rparr>"

record agent_result =
  result_agent :: string
  success :: bool
  result :: pydict
  reasoning_trace :: reasoning_trace
  next_agent :: "string option"
  actions :: "pyval list"

text \<open>
  An agent's \<open>execute\<close>: it reads the context, may append its trace to it, and returns
  its result.
\<close>

type_synonym agent = "agent_context \<Rightarrow> agent_result \<times> agent_context"

text \<open>
  The \<open>except Exception\<close> handler every agent ends with: a reflection step of the given
  confidence and a failure result; \<open>extra\<close> holds further entries of the result (the
  FraudGuard adds a verdict).  The handlers pass 0.3, 0.2 or 0.0, so the reflection is
  always appended.  The error text \<open>str(e)\<close> is kept as the name of the exception.
\<close>

fun error_text :: "py_error \<Rightarrow> pyval" where
  "error_text (Raised msg) = PStr msg"
| "error_text AttributeError = PStr ''AttributeError''"
| "error_text KeyError = PStr ''KeyError''"
| "error_text TypeError = PStr ''TypeError''"
| "error_text ValidationError = PStr ''ValidationError''"
| "error_text CircuitOpenError = PStr ''CircuitOpenError''"

definition agent_failure ::
  "string \<Rightarrow> string \<Rightarrow> real \<Rightarrow> pydict \<Rightarrow> py_error \<Rightarrow> reasoning_trace \<Rightarrow> agent_result" where
  "agent_failure name txt conf extra e tr =
     (case reflect txt conf tr of
        Inr tr' \<Rightarrow>
          \<lparr> result_agent = name, success = False,
            result = (''error'', error_text e) # extra,
            reasoning_trace = tr', next_agent = None, actions = [] \<rparr>
      | Inl e' \<Rightarrow>
          \<lparr> result_agent = name, success = False,
            result = (''error'', error_text e) # extra,
            reasoning_trace = tr, next_agent = None, actions = [] \<rparr>)"

section \<open>NovaAgent.execute (app/ai/agents/nova.py)\<close>

text \<open>
  The two language-model calls are parameters: \<open>detected\<close> is what \<open>_detect_intent\<close>
  yields, reduced to the intent name and the confidence read from it (\<open>Inl\<close> when the
  call or the reads raise), \<open>generated\<close> is what \<open>_generate_response\<close> yields.
\<close>

definition nova_body ::
  "py_error + string \<times> real \<Rightarrow> py_error + string \<Rightarrow> agent_context \<Rightarrow>
   reasoning_trace \<Rightarrow> reasoning_trace \<times> (py_error + pydict \<times> string option \<times> bool)" where
  "nova_body detected generated ctx =
     then_do (observe ''User says'' 0.95)
       (\<lambda>tr. case detected of
          Inl e \<Rightarrow> (tr, Inl e)
        | Inr (intent, conf) \<Rightarrow>
            then_do (analyze ''Detected intent'' conf)
              (\<lambda>tr.
                 if intent \<in> {''loan_request'', ''loan_inquiry''} then
                   then_do (hypothesize ''User asking about loans - will consult LoanAdvisor agent'' 0.85)
                     (\<lambda>tr. (tr, Inr ([(''needs_specialist'', PBool True), (''intent'', PStr intent)],
                                      Some ''LoanAdvisor'', False))) tr
                 else if intent \<in> {''trust_score'', ''reputation''} then
                   then_do (hypothesize ''User asking about trust - will consult TrustAnalyzer agent'' 0.85)
                     (\<lambda>tr. (tr, Inr ([(''needs_specialist'', PBool True), (''intent'', PStr intent)],
                                      Some ''TrustAnalyzer'', False))) tr
                 else
                   then_do (act ''Generating empathetic response'' 0.9)
                     (\<lambda>tr. case generated of
                        Inl e \<Rightarrow> (tr, Inl e)
                      | Inr response \<Rightarrow>
                          then_do (conclude ''Response ready'' 0.88)
                            (\<lambda>tr. (tr, Inr ([(''response'', PStr response), (''intent'', PStr intent),
                                              (''language'', PStr (language ctx))], None, True))) tr) tr) tr)"

definition nova_execute ::
  "py_error + string \<times> real \<Rightarrow> py_error + string \<Rightarrow> agent" where
  "nova_execute detected generated ctx =
     (case nova_body detected generated ctx (create_trace ''Nova'' ''Respond to'') of
        (tr, Inr (res, nxt, traced)) \<Rightarrow>
          (\<lparr> result_agent = ''Nova'', success = True, result = res,
             reasoning_trace = tr, next_agent = nxt, actions = [] \<rparr>,
           if traced then add_trace tr ctx else ctx)
      | (tr, Inl e) \<Rightarrow>
          (agent_failure ''Nova'' ''Error occurred'' 0.3 [] e tr, ctx))"

section \<open>ActionAgent (app/ai/agents/action_agent.py)\<close>

text \<open>\<open>_find_best_circle\<close>: the first circle, \<open>None\<close> for no circles.\<close>

definition find_best_circle :: "pydict list \<Rightarrow> pydict option" where
  "find_best_circle cs = (case cs of [] \<Rightarrow> None | c # _ \<Rightarrow> Some c)"

definition bind_err :: "'e + 'a \<Rightarrow> ('a \<Rightarrow> 'e + 'b) \<Rightarrow> 'e + 'b" where
  "bind_err m f = (case m of Inl e \<Rightarrow> Inl e | Inr x \<Rightarrow> f x)"

text \<open>
  \<open>_create_loan_draft\<close>.  \<open>not best_circle\<close> holds for \<open>None\<close> and for an empty
  dictionary.  The draft written to \<open>loan_data\<close> is not stored anywhere and is left out.
\<close>

definition create_loan_draft ::
  "agent_context \<Rightarrow> reasoning_trace \<Rightarrow> reasoning_trace \<times> (py_error + pydict)" where
  "create_loan_draft ctx =
     (case find_best_circle (circles ctx) of
        None \<Rightarrow>
          then_do (analyze ''No eligible circle found for loan.'' 0.8)
            (\<lambda>tr. (tr, Inr [(''success'', PBool False),
                            (''message'', PStr ''You need to join a Circle first to get a loan.''),
                            (''action'', PStr ''NAVIGATE''),
                            (''target'', PStr ''/circles'')]))
      | Some best_circle \<Rightarrow>
          if best_circle = [] then
            then_do (analyze ''No eligible circle found for loan.'' 0.8)
              (\<lambda>tr. (tr, Inr [(''success'', PBool False),
                              (''message'', PStr ''You need to join a Circle first to get a loan.''),
                              (''action'', PStr ''NAVIGATE''),
                              (''target'', PStr ''/circles'')]))
          else
            then_do (analyze ''Selected best circle'' 0.8)
              (\<lambda>tr.
                 case bind_err
                        (py_get (dict_get (agent_results ctx) ''RiskOracle'' (PDict []))
                           ''recommendation'' (PDict []))
                        (\<lambda>r. py_get r ''max_loan'' (PInt 10000)) of
                   Inl e \<Rightarrow> (tr, Inl e)
                 | Inr draft_amount \<Rightarrow>
                     then_do (act ''Drafting loan application'' 0.85)
                       (\<lambda>tr. (tr, Inr
                          [(''action'', PStr ''GUIDE_FLOW''),
                           (''screen'', PStr ''/loans/apply''),
                           (''state'', PDict
                              [(''amount'', draft_amount),
                               (''circle_id'', dict_get best_circle ''id'' PNone),
                               (''purpose'', PStr ''Emergency Support'')]),
                           (''guide_steps'', PList
                              [PDict [(''text'', PFmt ''I've selected the '{}' circle for you.''
                                                  [dict_get best_circle ''name'' PNone]),
                                      (''target'', PStr ''#circle-select''),
                                      (''overlay'', PBool True)],
                               PDict [(''text'', PFmt ''I've filled in Rs {} (your safe limit).''
                                                  [draft_amount]),
                                      (''target'', PStr ''#amount-input''),
                                      (''overlay'', PBool True)],
                               PDict [(''text'', PStr ''Just click here to submit!''),
                                      (''target'', PStr ''#submit-btn''),
                                      (''overlay'', PBool True)]])])) tr))"

text \<open>
  The body of \<open>execute\<close>.  \<open>AgentContext\<close> has no attribute \<open>intent\<close>, so the \<open>elif
  hasattr\<close> branch is never taken.
\<close>

definition action_body ::
  "agent_context \<Rightarrow> reasoning_trace \<Rightarrow> reasoning_trace \<times> (py_error + pydict)" where
  "action_body ctx tr =
     (case (case map_of (agent_results ctx) ''Nova'' of
              None \<Rightarrow> Inr (PStr ''general'')
            | Some nova \<Rightarrow> py_get nova ''intent'' (PStr ''general'')) of
        Inl e \<Rightarrow> (tr, Inl e)
      | Inr intent0 \<Rightarrow>
          (let intent =
                 (if \<not> py_truthy intent0 \<or> intent0 = PStr ''general''
                  then dict_get (agent_results ctx) ''intent'' (PStr ''general'')
                  else intent0)
           in then_do (observe ''Detected intent for action'' 0.9)
                (\<lambda>tr.
                   if intent = PStr ''loan_request'' then
                     (case create_loan_draft ctx tr of
                        (tr', Inl e) \<Rightarrow> (tr', Inl e)
                      | (tr', Inr data) \<Rightarrow>
                          then_do (conclude ''Action execution complete'' 0.85)
                            (\<lambda>tr. (tr, Inr data)) tr')
                   else if intent = PStr ''check_score'' then
                     then_do (conclude ''Action execution complete'' 0.85)
                       (\<lambda>tr. (tr, Inr [(''action'', PStr ''NAVIGATE''),
                                       (''target'', PStr ''/trust''),
                                       (''message'', PStr ''Let's check your trust score.'')])) tr
                   else
                     then_do (analyze ''No specific database action required for this intent.'' 0.8)
                       (then_do (conclude ''Action execution complete'' 0.85)
                          (\<lambda>tr. (tr, Inr []))) tr) tr))"

definition action_agent_execute :: agent where
  "action_agent_execute ctx =
     (case action_body ctx (create_trace ''ActionAgent'' ''Processing action for request'') of
        (tr, Inr data) \<Rightarrow>
          (\<lparr> result_agent = ''ActionAgent'', success = True, result = data,
             reasoning_trace = tr, next_agent = None, actions = [] \<rparr>, ctx)
      | (tr, Inl e) \<Rightarrow>
          (agent_failure ''ActionAgent'' ''Action failed'' 0 [] e tr, ctx))"

section \<open>LoanAdvisorAgent: the recommendation (app/ai/agents/loan_advisor.py)\<close>

definition get_trust_multiplier :: "int \<Rightarrow> real" where
  "get_trust_multiplier ts =
     (if ts \<ge> 80 then 2.0
      else if ts \<ge> 60 then 1.5
      else if ts \<ge> 40 then 1.0
      else if ts \<ge> 20 then 0.5
      else 0.25)"

text \<open>
  Steps 2 to 4 of \<open>execute\<close>, from the estimated monthly income, the current EMI burden,
  the trust score and the language to the \<open>recommendation\<close> dictionary.  Python's
  \<open>min(x, 50000)\<close> returns the integer 50000 only when it is the smaller value.
\<close>

definition loan_advisor_recommendation :: "real \<Rightarrow> real \<Rightarrow> int \<Rightarrow> string \<Rightarrow> pydict" where
  "loan_advisor_recommendation estimated_monthly current_emi_burden ts lang =
     (let safe_emi = estimated_monthly * 0.3 - current_emi_burden;
          trust_multiplier = get_trust_multiplier ts;
          base_limit = 5000 + of_int ts * 450;
          max_loan = min (base_limit * trust_multiplier) 50000;
          max_loan_value =
            (if 50000 < base_limit * trust_multiplier then PInt 50000
             else PFloat (base_limit * trust_multiplier))
      in if safe_emi \<le> 0 then
           [(''can_borrow'', PBool False),
            (''reason'', PStr ''existing_emi_too_high''),
            (''advice'', PStr ''Pay off current loans first to qualify for new loan''),
            (''suggested_action'', PStr ''wait'')]
         else if ts < 20 then
           [(''can_borrow'', PBool False),
            (''reason'', PStr ''trust_too_low''),
            (''advice'', PStr ''Get vouches from circle members to build trust''),
            (''suggested_action'', PStr ''get_vouches'')]
         else
           (let recommended_amount = min max_loan (safe_emi * 10 * 4);
                recommended_emi = recommended_amount / 10
            in [(''can_borrow'', PBool True),
                (''max_amount'', max_loan_value),
                (''recommended_amount'', PFloat recommended_amount),
                (''recommended_tenure_weeks'', PInt 10),
                (''recommended_emi'', PFloat recommended_emi),
                (''explanation'', PFmt (''explanation_'' @ (if lang \<in> {''hi'', ''ml''} then lang else ''en''))
                   [PFloat recommended_amount, PInt 10, PFloat recommended_emi])]))"

section \<open>The orchestrator (app/ai/orchestrator.py)\<close>

text \<open>
  What a request returns: the entries of the returned dictionary other than the trace
  listings, the traces \<open>all_traces\<close> that \<open>to_display\<close> (and \<open>model_dump\<close>) are mapped
  over, and the names of the agents whose \<open>execute\<close> was awaited, in order.
\<close>

record reply =
  reply_fields :: pydict
  reply_traces :: "reasoning_trace list"
  executed :: "string list"

fun map_err :: "('a \<Rightarrow> 'e + 'b) \<Rightarrow> 'a list \<Rightarrow> 'e + 'b list" where
  "map_err f [] = Inr []"
| "map_err f (x # xs) =
     (case f x of
        Inl e \<Rightarrow> Inl e
      | Inr y \<Rightarrow> (case map_err f xs of Inl e \<Rightarrow> Inl e | Inr ys \<Rightarrow> Inr (y # ys)))"

text \<open>
  \<open>for s in v\<close>: a list yields its elements, a dictionary its keys, a string its
  characters; other JSON values are not iterable.
\<close>

fun py_iter :: "pyval \<Rightarrow> py_error + pyval list" where
  "py_iter (PList xs) = Inr xs"
| "py_iter (PDict d) = Inr (map PStr (remdups (map fst d)))"
| "py_iter (PStr s) = Inr (map (\<lambda>c. PStr [c]) s)"
| "py_iter _ = Inl TypeError"

text \<open>
  The Mastra branch of \<open>process_loan_request\<close>: \<open>mastra_result\<close> is what
  \<open>mastra_service.run_loan_workflow\<close> returned.  \<open>Some\<close> is the early return, \<open>None\<close>
  falls through to the local agents.
\<close>

definition mastra_loan_reply :: "pyval \<Rightarrow> real \<Rightarrow> py_error + reply option" where
  "mastra_loan_reply mastra_result amount =
     bind_err (py_get mastra_result ''success'' PNone) (\<lambda>ok.
       if py_truthy ok then
         bind_err (py_index mastra_result ''result'') (\<lambda>res.
         bind_err (py_get res ''approved'' (PBool False)) (\<lambda>approved.
         bind_err (py_get res ''approved_amount'' (PInt 0)) (\<lambda>approved_amount.
         bind_err (py_get res ''risk_category'' PNone) (\<lambda>risk_category.
         bind_err (py_get res ''recommendation'' (PDict [])) (\<lambda>recommendation.
         bind_err (py_get mastra_result ''steps'' (PList [])) (\<lambda>step_list.
         bind_err (py_iter step_list) (\<lambda>ss.
         bind_err (map_err (\<lambda>s. py_index s ''step'') ss) (\<lambda>labels.
           Inr (Some
             \<lparr> reply_fields =
                 [(''approved'', approved),
                  (''approved_amount'', approved_amount),
                  (''requested_amount'', PFloat amount),
                  (''risk_category'', risk_category),
                  (''recommendation'', recommendation),
                  (''reasoning_traces'',
                     PList (map (\<lambda>l. PFmt ''Mastra Workflow: {}'' [l]) labels))],
               reply_traces = [],
               executed = [] \<rparr>)))))))))
       else Inr None)"

text \<open>
  \<open>process_loan_request\<close>.  The parameters stand for what the method reads from outside:
  \<open>settings.mastra_service_url\<close>, the Mastra workflow's answer, the three agents of
  \<open>self.agents\<close> and the context \<open>build_context\<close> returned.
\<close>

definition process_loan_request ::
  "string \<Rightarrow> pyval \<Rightarrow> agent \<Rightarrow> agent \<Rightarrow> agent \<Rightarrow> agent_context \<Rightarrow> real \<Rightarrow>
   py_error + reply" where
  "process_loan_request mastra_service_url mastra_result fraud_guard risk_oracle loan_advisor
     built amount =
     (let context = built \<lparr> current_request := Some ''Loan request'' \<rparr> in
      bind_err (if mastra_service_url \<noteq> [] then mastra_loan_reply mastra_result amount
                else Inr None)
        (\<lambda>early. case early of
           Some r \<Rightarrow> Inr r
         | None \<Rightarrow>
            (let (fraud_result, context1) = fraud_guard context in
             if dict_get (result fraud_result) ''verdict'' PNone = PStr ''BLOCK'' then
               Inr \<lparr> reply_fields =
                       [(''approved'', PBool False),
                        (''reason'', PStr ''Security check failed'')],
                     reply_traces = [reasoning_trace fraud_result],
                     executed = [''FraudGuard''] \<rparr>
             else
               (let (risk_result, context2) = risk_oracle context1;
                    (advisor_result, context3) = loan_advisor context2;
                    all_traces = [reasoning_trace fraud_result, reasoning_trace risk_result,
                                  reasoning_trace advisor_result];
                    ran = [''FraudGuard'', ''RiskOracle'', ''LoanAdvisor''];
                    recommendation = dict_get (result advisor_result) ''recommendation'' (PDict [])
                in bind_err (py_get recommendation ''can_borrow'' (PBool False)) (\<lambda>can_borrow.
                   if py_truthy can_borrow then
                     bind_err (py_get recommendation ''max_amount'' (PInt 0)) (\<lambda>max_amount.
                     bind_err (py_get (dict_get (result risk_result) ''recommendation'' (PDict []))
                                 ''max_loan'' (PInt 0)) (\<lambda>max_loan.
                     bind_err (py_min3 amount max_amount max_loan) (\<lambda>max_approved.
                       Inr \<lparr> reply_fields =
                               [(''approved'', PBool True),
                                (''approved_amount'', max_approved),
                                (''requested_amount'', PFloat amount),
                                (''risk_category'',
                                   dict_get (result risk_result) ''risk_category'' PNone),
                                (''recommendation'', recommendation)],
                             reply_traces = all_traces,
                             executed = ran \<rparr>)))
                   else
                     bind_err (py_get recommendation ''reason'' PNone) (\<lambda>reason.
                     bind_err (py_get recommendation ''advice'' PNone) (\<lambda>advice.
                     bind_err (py_get recommendation ''suggested_action'' PNone) (\<lambda>suggested.
                       Inr \<lparr> reply_fields =
                               [(''approved'', PBool False),
                                (''requested_amount'', PFloat amount),
                                (''reason'', reason),
                                (''advice'', advice),
                                (''suggested_action'', suggested)],
                             reply_traces = all_traces,
                             executed = ran \<rparr>))))))))"

text \<open>\<open>process_vouch_request\<close>, on the context built for the vouchee.\<close>

definition process_vouch_request ::
  "agent \<Rightarrow> agent \<Rightarrow> agent_context \<Rightarrow> py_error + reply" where
  "process_vouch_request fraud_guard trust_analyzer built =
     (let context = built \<lparr> current_request := Some ''Vouch request'' \<rparr>;
          (fraud_result, context1) = fraud_guard context
      in if dict_get (result fraud_result) ''verdict'' PNone = PStr ''BLOCK'' then
           Inr \<lparr> reply_fields =
                   [(''recommended'', PBool False),
                    (''reason'', PStr ''Security concerns with this user'')],
                 reply_traces = [reasoning_trace fraud_result],
                 executed = [''FraudGuard''] \<rparr>
         else
           (let (trust_result, context2) = trust_analyzer context1;
                vouch_quality = dict_get (result trust_result) ''vouch_quality'' (PDict [])
            in bind_err (py_get vouch_quality ''grade'' (PStr ''C'')) (\<lambda>grade.
                 Inr \<lparr> reply_fields =
                         [(''recommended'',
                             PBool (dict_get (result fraud_result) ''verdict'' PNone
                                      \<noteq> PStr ''BLOCK'')),
                          (''vouchee_trust_score'', PInt (trust_score context2)),
                          (''vouch_quality_grade'', grade)],
                       reply_traces = [reasoning_trace fraud_result,
                                       reasoning_trace trust_result],
                       executed = [''FraudGuard'', ''TrustAnalyzer''] \<rparr>)))"

text \<open>\<open>_synthesize_response\<close>: it reads \<open>context.agent_results\<close> only.\<close>

definition synthesize_response :: "agent_context \<Rightarrow> py_error + pydict" where
  "synthesize_response context =
     (let ar = agent_results context;
          action_result = dict_get ar ''ActionAgent'' (PDict [])
      in bind_err (py_get action_result ''action'' PNone) (\<lambda>action.
         if py_truthy action then
           bind_err (py_get action_result ''message'' (PStr ''I'm on it!'')) (\<lambda>message.
           bind_err (py_get action_result ''target'' PNone) (\<lambda>target.
           bind_err (py_get action_result ''state'' PNone) (\<lambda>state.
           bind_err (py_get action_result ''guide_steps'' PNone) (\<lambda>guide_steps.
             Inr [(''message'', message),
                  (''action'', action),
                  (''target'', target),
                  (''data'', state),
                  (''guide_steps'', guide_steps)]))))
         else
           bind_err (py_get (dict_get ar ''Nova'' (PDict [])) ''response'' PNone) (\<lambda>response.
           if py_truthy response then Inr [(''message'', response)]
           else
             bind_err (py_get (dict_get ar ''LoanAdvisor'' (PDict [])) ''recommendation'' PNone)
               (\<lambda>rec.
                if py_truthy rec then
                  bind_err (py_get rec ''can_borrow'' PNone) (\<lambda>can_borrow.
                  bind_err (if py_truthy can_borrow
                            then py_get rec ''explanation'' (PStr ''You can apply for a loan!'')
                            else py_get rec ''advice'' (PStr ''Let me help you qualify.''))
                    (\<lambda>msg. Inr [(''message'', msg)]))
                else
                  bind_err (py_get (dict_get ar ''TrustAnalyzer'' (PDict []))
                              ''bharosa_visual'' PNone) (\<lambda>visual.
                  if py_truthy visual then
                    bind_err (py_index visual ''display'') (\<lambda>display.
                    bind_err (py_index visual ''message'') (\<lambda>message.
                      Inr [(''message'', PFmt ''{} - {}'' [display, message])]))
                  else Inr [(''message'', PStr ''How can I help you today?'')])))))"

section \<open>RiskOracleAgent: income stability (app/ai/agents/risk_oracle.py)\<close>

text \<open>
  Factor 3 of \<open>_calculate_risk_factors\<close>: \<open>now\<close> is \<open>datetime.utcnow()\<close> in microseconds.
  An income entry is one of type \<open>income\<close> with a truthy amount; it is recent when it
  was recorded at most 30 days before \<open>now\<close>, and also when its \<open>recorded_at\<close> does not
  parse (the \<open>except\<close> branch appends its amount).
\<close>

definition thirty_days :: int where
  "thirty_days = 30 * 86400 * 1000000"

definition is_income_entry :: "diary_entry \<Rightarrow> bool" where
  "is_income_entry e =
     (entry_type e = Some ''income'' \<and> (case entry_amount e of None \<Rightarrow> False | Some a \<Rightarrow> a \<noteq> 0))"

definition float_amount :: "diary_entry \<Rightarrow> real" where
  "float_amount e = (case entry_amount e of None \<Rightarrow> 0 | Some a \<Rightarrow> a)"

definition counted_recent :: "int \<Rightarrow> diary_entry \<Rightarrow> bool" where
  "counted_recent now e =
     (case recorded_at e of None \<Rightarrow> True | Some t \<Rightarrow> now - t \<le> thirty_days)"

definition income_stability :: "int \<Rightarrow> diary_entry list \<Rightarrow> real" where
  "income_stability now diary =
     (let income_entries = filter is_income_entry diary in
      if length income_entries \<ge> 4 then
        (let recent_incomes = map float_amount (filter (counted_recent now) income_entries) in
         if recent_incomes \<noteq> [] \<and> length recent_incomes \<ge> 2 then
           (let mean = sum_list recent_incomes / real (length recent_incomes) in
            if mean > 0 then
              (let variance = sum_list (map (\<lambda>x. (x - mean)\<^sup>2) recent_incomes)
                                / real (length recent_incomes);
                   std_dev = sqrt variance;
                   cv = std_dev / mean
               in max 0.3 (min 1.0 (1.0 - cv * 0.7)))
            else 0.3)
         else 0.4)
      else 0.3)"

text \<open>
  The factor in the words of the specification: the samples are the amounts of the income
  entries of the last 30 days; with at least two samples the score is
  \<open>clamp(1 - 0.7 cv, 0.3, 1.0)\<close>, or 0.3 for a mean \<open>\<le> 0\<close>; with fewer it is 0.3 for a diary
  of fewer than 4 income entries and 0.4 otherwise.
\<close>

definition population_cv :: "real list \<Rightarrow> real" where
  "population_cv xs =
     (let mu = sum_list xs / real (length xs);
          sigma = sqrt (sum_list (map (\<lambda>x. (x - mu)\<^sup>2) xs) / real (length xs))
      in sigma / mu)"

definition stability_score :: "real list \<Rightarrow> real" where
  "stability_score xs =
     (if sum_list xs / real (length xs) \<le> 0 then 0.3
      else max 0.3 (min 1.0 (1 - 0.7 * population_cv xs)))"

definition within_30_days :: "int \<Rightarrow> diary_entry \<Rightarrow> bool" where
  "within_30_days now e =
     (case recorded_at e of None \<Rightarrow> False | Some t \<Rightarrow> now - t \<le> thirty_days)"

definition income_stability_spec :: "int \<Rightarrow> diary_entry list \<Rightarrow> real" where
  "income_stability_spec now diary =
     (let income_entries = filter is_income_entry diary;
          samples = map float_amount (filter (within_30_days now) income_entries)
      in if length samples \<ge> 2 then stability_score samples
         else if length income_entries < 4 then 0.3 else 0.4)"

text \<open>
  \<open>context.agent_results[agent_name] = result.result\<close>, as \<open>process_message\<close> stores
  each agent's result: the value of an existing key is replaced, a new key is appended.
\<close>

fun dict_set :: "pydict \<Rightarrow> string \<Rightarrow> pyval \<Rightarrow> pydict" where
  "dict_set [] k v = [(k, v)]"
| "dict_set ((k', v') # d) k v = (if k' = k then (k, v) # d else (k', v') # dict_set d k v)"

definition store_result :: "string \<Rightarrow> agent_result \<Rightarrow> agent_context \<Rightarrow> agent_context" where
  "store_result name res context =
     context \<lparr> agent_results := dict_set (agent_results context) name (PDict (result res)) \<rparr>"

text \<open>
  Names for what a loan request reads on its way: the context the agents are run on, the
  verdict of the FraudGuard on it, the recommendations of the LoanAdvisor and the
  RiskOracle as \<open>process_loan_request\<close> fetches them (an empty dictionary when the key
  is missing), and the condition under which the Mastra branch does not return: no
  service URL, or an answer whose \<open>success\<close> is not truthy.
\<close>

definition loan_context :: "agent_context \<Rightarrow> agent_context" where
  "loan_context built = built \<lparr> current_request := Some ''Loan request'' \<rparr>"

definition fraud_verdict :: "agent \<Rightarrow> agent_context \<Rightarrow> pyval" where
  "fraud_verdict fraud_guard built =
     dict_get (result (fst (fraud_guard (loan_context built)))) ''verdict'' PNone"

definition risk_recommendation :: "agent \<Rightarrow> agent \<Rightarrow> agent_context \<Rightarrow> pyval" where
  "risk_recommendation fraud_guard risk_oracle built =
     dict_get (result (fst (risk_oracle (snd (fraud_guard (loan_context built))))))
       ''recommendation'' (PDict [])"

definition advisor_recommendation :: "agent \<Rightarrow> agent \<Rightarrow> agent \<Rightarrow> agent_context \<Rightarrow> pyval" where
  "advisor_recommendation fraud_guard risk_oracle loan_advisor built =
     dict_get (result (fst (loan_advisor
        (snd (risk_oracle (snd (fraud_guard (loan_context built))))))))
       ''recommendation'' (PDict [])"

definition mastra_falls_through :: "string \<Rightarrow> pyval \<Rightarrow> bool" where
  "mastra_falls_through mastra_service_url mastra_result =
     (mastra_service_url = [] \<or>
      (case mastra_result of
         PDict d \<Rightarrow> \<not> py_truthy (dict_get d ''success'' PNone)
       | _ \<Rightarrow> False))"

section \<open>Circuit breaker (app/utils.py)\<close>

datatype circuit_state = CLOSED | OPEN | HALF_OPEN

text \<open>Times are microseconds since the epoch, as \<open>datetime.utcnow()\<close> resolves them.\<close>

record circuit_breaker =
  breaker_name :: string
  failure_threshold :: int
  recovery_timeout :: int
  success_threshold :: int
  state :: circuit_state
  failure_count :: int
  success_count :: int
  last_failure_time :: "int option"

definition new_breaker :: "string \<Rightarrow> int \<Rightarrow> int \<Rightarrow> int \<Rightarrow> circuit_breaker" where
  "new_breaker name ft rt st =
     \<lparr> breaker_name = name, failure_threshold = ft, recovery_timeout = rt,
       success_threshold = st, state = CLOSED, failure_count = 0, success_count = 0,
       last_failure_time = None \<rparr>"

text \<open>
  \<open>timedelta.seconds\<close> of a difference of \<open>d\<close> microseconds: the seconds left over after
  whole days are taken out, between 0 and 86399.
\<close>

definition timedelta_seconds :: "int \<Rightarrow> int" where
  "timedelta_seconds d = (d mod 86400000000) div 1000000"

text \<open>\<open>__aenter__\<close> at time \<open>now\<close>: \<open>Inl CircuitOpenError\<close> is the raise.\<close>

definition aenter :: "int \<Rightarrow> circuit_breaker \<Rightarrow> py_error + circuit_breaker" where
  "aenter now cb =
     (if state cb = OPEN then
        (case last_failure_time cb of
           Some t \<Rightarrow>
             (let elapsed = timedelta_seconds (now - t) in
              if elapsed \<ge> recovery_timeout cb
              then Inr (cb \<lparr> state := HALF_OPEN, success_count := 0 \<rparr>)
              else Inl CircuitOpenError)
         | None \<Rightarrow> Inr cb)
      else Inr cb)"

definition record_success :: "circuit_breaker \<Rightarrow> circuit_breaker" where
  "record_success cb =
     (if state cb = HALF_OPEN then
        (let cb1 = cb \<lparr> success_count := success_count cb + 1 \<rparr> in
         if success_count cb1 \<ge> success_threshold cb1
         then cb1 \<lparr> state := CLOSED, failure_count := 0 \<rparr>
         else cb1)
      else if state cb = CLOSED then cb \<lparr> failure_count := 0 \<rparr>
      else cb)"

definition record_failure :: "int \<Rightarrow> circuit_breaker \<Rightarrow> circuit_breaker" where
  "record_failure now cb =
     (let cb1 = cb \<lparr> failure_count := failure_count cb + 1, last_failure_time := Some now \<rparr> in
      if state cb1 = HALF_OPEN then cb1 \<lparr> state := OPEN \<rparr>
      else if state cb1 = CLOSED then
        (if failure_count cb1 \<ge> failure_threshold cb1 then cb1 \<lparr> state := OPEN \<rparr> else cb1)
      else cb1)"

text \<open>
  One use of \<open>async with breaker: ...\<close>: the wrapped operation either returns or raises;
  the call enters at \<open>t_enter\<close> and leaves at \<open>t_exit\<close>.  When \<open>__aenter__\<close> raises, the
  body is not run and \<open>__aexit__\<close> is not called.
\<close>

datatype op_outcome = Returns | Raises

datatype call_outcome = FailedFast | Invoked op_outcome

definition aexit :: "int \<Rightarrow> op_outcome \<Rightarrow> circuit_breaker \<Rightarrow> circuit_breaker" where
  "aexit now out cb = (case out of Returns \<Rightarrow> record_success cb | Raises \<Rightarrow> record_failure now cb)"

definition guarded_call ::
  "int \<Rightarrow> int \<Rightarrow> op_outcome \<Rightarrow> circuit_breaker \<Rightarrow> circuit_breaker \<times> call_outcome" where
  "guarded_call t_enter t_exit out cb =
     (case aenter t_enter cb of
        Inl e \<Rightarrow> (cb, FailedFast)
      | Inr cb' \<Rightarrow> (aexit t_exit out cb', Invoked out))"

text \<open>A sequence of calls, one after the other, with the outcome of each.\<close>

fun guarded_calls ::
  "(int \<times> int \<times> op_outcome) list \<Rightarrow> circuit_breaker \<Rightarrow> circuit_breaker \<times> call_outcome list" where
  "guarded_calls [] cb = (cb, [])"
| "guarded_calls ((t_enter, t_exit, out) # rest) cb =
     (let (cb1, r) = guarded_call t_enter t_exit out cb;
          (cb2, rs) = guarded_calls rest cb1
      in (cb2, r # rs))"

section \<open>Repayments (app/domain/services.py, app/api/v1/payments.py)\<close>

text \<open>
  The rows the repayment path reads and writes, and the persisted state: loans,
  repayments, the trust score of each profile, the trust-score history and the events
  handed to the gamification service.  \<open>principal\<close> is the loan's \<open>amount\<close>.
\<close>

record loan_row =
  loan_id :: string
  borrower_id :: string
  principal :: real
  loan_status :: string

record repayment_row =
  repayment_id :: nat
  repaid_loan :: string
  repaid_amount :: real
  dodo_payment_id :: string
  repayment_status :: string
  blockchain_tx_hash :: "string option"

record store =
  loan_rows :: "loan_row list"
  repayments :: "repayment_row list"
  profile_trust :: "(string \<times> int) list"
  trust_score_history :: "(string \<times> int \<times> string) list"
  gamification_events :: "(string \<times> string) list"

text \<open>
  The store object \<open>supabase_service\<close> as the repayment path uses it: one field per method
  it looks up, \<open>None\<close> when the object has no attribute of that name (the lookup raises
  \<open>AttributeError\<close>).  \<open>update_trust_score\<close> is called with four arguments, so a method
  taking three raises \<open>TypeError\<close>.  A method that is present acts on the store.
\<close>

datatype trust_score_method =
    TakesThree "store \<Rightarrow> string \<Rightarrow> int \<Rightarrow> string \<Rightarrow> store"
  | TakesFour "store \<Rightarrow> string \<Rightarrow> int \<Rightarrow> string \<Rightarrow> string option \<Rightarrow> store"

record store_adapter =
  get_loan :: "(store \<Rightarrow> string \<Rightarrow> loan_row option) option"
  create_repayment ::
    "(store \<Rightarrow> string \<Rightarrow> real \<Rightarrow> string \<Rightarrow> string \<Rightarrow> repayment_row \<times> store) option"
  update_repayment :: "(store \<Rightarrow> nat \<Rightarrow> string \<Rightarrow> store) option"
  update_trust_score :: "trust_score_method option"
  get_loan_repayments :: "(store \<Rightarrow> string \<Rightarrow> repayment_row list) option"
  update_loan :: "(store \<Rightarrow> string \<Rightarrow> string \<Rightarrow> store) option"

text \<open>
  \<open>SupabaseService\<close> (app/services/supabase.py).  The class defines \<open>update_loan\<close> and
  \<open>update_trust_score(user_id, new_score, reason)\<close>, which writes \<open>new_score\<close> as the
  profile's trust score and adds it to the history; it defines no \<open>get_loan\<close>,
  \<open>create_repayment\<close>, \<open>update_repayment\<close> or \<open>get_loan_repayments\<close>.  Of \<open>update_loan\<close>
  only the status update of the repayment path is kept.
\<close>

definition supabase_update_loan :: "store \<Rightarrow> string \<Rightarrow> string \<Rightarrow> store" where
  "supabase_update_loan st lid status =
     st \<lparr> loan_rows :=
            map (\<lambda>l. if loan_id l = lid then l \<lparr> loan_status := status \<rparr> else l)
                (loan_rows st) \<rparr>"

definition supabase_update_trust_score :: "store \<Rightarrow> string \<Rightarrow> int \<Rightarrow> string \<Rightarrow> store" where
  "supabase_update_trust_score st user new_score reason =
     st \<lparr> profile_trust :=
            map (\<lambda>(u, s). if u = user then (u, new_score) else (u, s)) (profile_trust st),
          trust_score_history := trust_score_history st @ [(user, new_score, reason)] \<rparr>"

definition supabase_service :: store_adapter where
  "supabase_service =
     \<lparr> get_loan = None,
       create_repayment = None,
       update_repayment = None,
       update_trust_score = Some (TakesThree supabase_update_trust_score),
       get_loan_repayments = None,
       update_loan = Some supabase_update_loan \<rparr>"

text \<open>
  The blockchain client as the repayment path sees it: whether it is there and
  configured, what \<open>record_repayment\<close> gives (a hash, \<open>None\<close>, or a raise) and whether
  \<open>mark_loan_completed\<close> raises.
\<close>

record blockchain =
  is_configured :: bool
  record_repayment_result :: "py_error + string option"
  mark_loan_completed_error :: "py_error option"

record repayment_result =
  repayment :: repayment_row
  total_repaid :: real
  reported_status :: string

definition truthy_id :: "string option \<Rightarrow> bool" where
  "truthy_id v = (case v of None \<Rightarrow> False | Some s \<Rightarrow> s \<noteq> [])"

text \<open>
  \<open>PaymentDomainService.process_repayment\<close> on a store object.  The store is returned as
  the call left it, also when the call raises part way.
\<close>

definition process_repayment ::
  "store_adapter \<Rightarrow> blockchain \<Rightarrow> store \<Rightarrow> string \<Rightarrow> real \<Rightarrow> string \<Rightarrow>
   store \<times> (py_error + repayment_result)" where
  "process_repayment db chain st lid amt payment_id =
     (case get_loan db of
        None \<Rightarrow> (st, Inl AttributeError)
      | Some get \<Rightarrow>
     (case get st lid of
        None \<Rightarrow> (st, Inl (Raised ''Loan not found''))
      | Some loan \<Rightarrow>
     (case create_repayment db of
        None \<Rightarrow> (st, Inl AttributeError)
      | Some create \<Rightarrow>
     (let (row, st1) = create st lid amt payment_id ''completed'' in
      case (if is_configured chain then record_repayment_result chain else Inr None) of
        Inl e \<Rightarrow> (st1, Inl e)
      | Inr tx_hash \<Rightarrow>
     (case (if truthy_id tx_hash then
              (case update_repayment db of
                 None \<Rightarrow> Inl AttributeError
               | Some update \<Rightarrow> Inr (update st1 (repayment_id row) (the tx_hash)))
            else Inr st1) of
        Inl e \<Rightarrow> (st1, Inl e)
      | Inr st2 \<Rightarrow>
     (case update_trust_score db of
        None \<Rightarrow> (st2, Inl AttributeError)
      | Some (TakesThree f) \<Rightarrow> (st2, Inl TypeError)
      | Some (TakesFour f) \<Rightarrow>
     (let st3 = f st2 (borrower_id loan) 5 ''On-time repayment'' tx_hash in
      case get_loan_repayments db of
        None \<Rightarrow> (st3, Inl AttributeError)
      | Some list_repayments \<Rightarrow>
     (let total = sum_list (map repaid_amount (list_repayments st3 lid));
          answer = \<lparr> repayment = row, total_repaid = total,
                     reported_status = loan_status loan \<rparr>
      in if total \<ge> principal loan * 1.1 then
           (case update_loan db of
              None \<Rightarrow> (st3, Inl AttributeError)
            | Some set_status \<Rightarrow>
                (let st4 = set_status st3 lid ''completed'' in
                 case (if is_configured chain then mark_loan_completed_error chain
                       else None) of
                   Some e \<Rightarrow> (st4, Inl e)
                 | None \<Rightarrow> (st4, Inr answer)))
         else (st3, Inr answer)))))))))"

text \<open>
  The webhook payload after \<open>json.loads\<close>: the event type and the payment's \<open>id\<close>,
  \<open>amount\<close> in paise and the \<open>loan_id\<close> and \<open>user_id\<close> of its metadata.
\<close>

record payment_data =
  payment_id :: string
  amount_paise :: real
  meta_loan_id :: "string option"
  meta_user_id :: "string option"

record webhook_event =
  event_type :: string
  payment :: payment_data

text \<open>
  \<open>process_payment_completed\<close>: every exception is caught and logged.  The gamification
  call has a handler of its own, so only the event is journalled.
\<close>

definition process_payment_completed ::
  "store_adapter \<Rightarrow> blockchain \<Rightarrow> store \<Rightarrow> payment_data \<Rightarrow> store" where
  "process_payment_completed db chain st pd =
     (if truthy_id (meta_loan_id pd) then
        (case process_repayment db chain st (the (meta_loan_id pd)) (amount_paise pd / 100)
                (payment_id pd) of
           (st1, Inl e) \<Rightarrow> st1
         | (st1, Inr res) \<Rightarrow>
             if truthy_id (meta_user_id pd)
             then st1 \<lparr> gamification_events :=
                          gamification_events st1 @ [(the (meta_user_id pd), ''repayment'')] \<rparr>
             else st1)
      else st)"

text \<open>\<open>process_payment_failed\<close>: it records the attempt; every exception is caught.\<close>

definition process_payment_failed :: "store_adapter \<Rightarrow> store \<Rightarrow> payment_data \<Rightarrow> store" where
  "process_payment_failed db st pd =
     (if truthy_id (meta_loan_id pd) then
        (case create_repayment db of
           None \<Rightarrow> st
         | Some create \<Rightarrow>
             snd (create st (the (meta_loan_id pd)) (amount_paise pd / 100)
                    (payment_id pd) ''failed''))
      else st)"

text \<open>
  \<open>handle_webhook\<close> with its background task run to the end: \<open>signature_ok\<close> is what
  \<open>dodo_service.verify_webhook\<close> answered; \<open>False\<close> in the result is the 401.
\<close>

definition handle_webhook ::
  "store_adapter \<Rightarrow> blockchain \<Rightarrow> bool \<Rightarrow> webhook_event \<Rightarrow> store \<Rightarrow> store \<times> bool" where
  "handle_webhook db chain signature_ok ev st =
     (if \<not> signature_ok then (st, False)
      else if event_type ev = ''payment.completed''
        then (process_payment_completed db chain st (payment ev), True)
      else if event_type ev = ''payment.failed''
        then (process_payment_failed db st (payment ev), True)
      else (st, True))"

section \<open>Example inputs\<close>

text \<open>A context with one circle and no history, used to run the agents.\<close>

definition example_context :: agent_context where
  "example_context =
     \<lparr> user_id = ''user-0001'', user_profile = [], trust_score = 45, saathi_balance = 100,
       circles = [[(''id'', PStr ''circle-1''), (''name'', PStr ''Neighbours'')]],
       loans = [], vouches = [], financial_diary = [], language = ''en'',
       current_request = None, agent_results = [], reasoning_traces = [] \<rparr>"


text \<open>
  Stand-ins for agents whose own code is not needed: an agent that returns a fixed
  result dictionary and leaves the context alone.
\<close>

definition fixed_agent :: "string \<Rightarrow> pydict \<Rightarrow> agent" where
  "fixed_agent name res context =
     (\<lparr> result_agent = name, success = True, result = res,
        reasoning_trace = create_trace name ''fixed'', next_agent = None, actions = [] \<rparr>,
      context)"

text \<open>
  A LoanAdvisor stand-in that returns the recommendation the agent computes from a given
  income estimate and EMI burden.
\<close>

definition advisor_agent :: "real \<Rightarrow> real \<Rightarrow> agent" where
  "advisor_agent estimated_monthly current_emi_burden context =
     (\<lparr> result_agent = ''LoanAdvisor'', success = True,
        result = [(''recommendation'',
                   PDict (loan_advisor_recommendation estimated_monthly current_emi_burden
                            (trust_score context) (language context))),
                  (''trust_score'', PInt (trust_score context))],
        reasoning_trace = create_trace ''LoanAdvisor'' ''Loan advice'',
        next_agent = None, actions = [] \<rparr>,
      context)"

text \<open>
  The context of the chat turn ``I need a loan urgently'' when the ActionAgent runs, last
  in the \<open>loan_request\<close> workflow: Nova has stored the intent, the FraudGuard a clear
  verdict, the RiskOracle a limit of 10000 and the LoanAdvisor its recommendation.
\<close>

definition loan_request_context :: agent_context where
  "loan_request_context =
     example_context
       \<lparr> agent_results :=
           [(''Nova'', PDict [(''needs_specialist'', PBool True),
                              (''intent'', PStr ''loan_request'')]),
            (''FraudGuard'', PDict [(''verdict'', PStr ''CLEAR''),
                                    (''can_proceed'', PBool True)]),
            (''RiskOracle'', PDict [(''risk_category'', PStr ''ELEVATED_RISK''),
                                    (''recommendation'', PDict [(''max_loan'', PInt 10000)])]),
            (''LoanAdvisor'', PDict [(''recommendation'',
                                      PDict (loan_advisor_recommendation 20000 0 45 ''en''))])] \<rparr>"

text \<open>An answer of the Mastra loan workflow that approves 99999.\<close>

definition mastra_approval :: pyval where
  "mastra_approval =
     PDict [(''success'', PBool True),
            (''result'', PDict [(''approved'', PBool True),
                                (''approved_amount'', PInt 99999)])]"

text \<open>An income entry of the given amount recorded at the given time.\<close>

definition income_at :: "int \<Rightarrow> real \<Rightarrow> diary_entry" where
  "income_at t a = \<lparr> entry_type = Some ''income'', entry_amount = Some a, recorded_at = Some t \<rparr>"

text \<open>
  The \<open>payments\<close> breaker as configured (threshold 5, timeout 30 s, two successes to
  close) and five failing calls, one per second from time 0.
\<close>

definition payments_breaker :: circuit_breaker where
  "payments_breaker = new_breaker ''dodo_payments'' 5 30 2"

definition five_failures :: "(int \<times> int \<times> op_outcome) list" where
  "five_failures =
     [(0, 0, Raises), (1000000, 1000000, Raises), (2000000, 2000000, Raises),
      (3000000, 3000000, Raises), (4000000, 4000000, Raises)]"

text \<open>
  The webhook of scenario 6: payment \<open>p-42\<close> of 55000 paise for loan \<open>L\<close>, a store that
  holds the loan and already a repayment with that payment id, and no blockchain client
  configured.
\<close>

definition p42_event :: webhook_event where
  "p42_event =
     \<lparr> event_type = ''payment.completed'',
       payment = \<lparr> payment_id = ''p-42'', amount_paise = 55000,
                   meta_loan_id = Some ''L'', meta_user_id = Some ''borrower-1'' \<rparr> \<rparr>"

definition store_with_p42 :: store where
  "store_with_p42 =
     \<lparr> loan_rows = [\<lparr> loan_id = ''L'', borrower_id = ''borrower-1'', principal = 10000,
                      loan_status = ''repaying'' \<rparr>],
       repayments = [\<lparr> repayment_id = 0, repaid_loan = ''L'', repaid_amount = 550,
                       dodo_payment_id = ''p-42'', repayment_status = ''completed'',
                       blockchain_tx_hash = None \<rparr>],
       profile_trust = [(''borrower-1'', 65)],
       trust_score_history = [(''borrower-1'', 65, ''On-time repayment'')],
       gamification_events = [] \<rparr>"

definition no_blockchain :: blockchain where
  "no_blockchain =
     \<lparr> is_configured = False, record_repayment_result = Inr None,
       mark_loan_completed_error = None \<rparr>"

section \<open>Quadratic voting: the tally\<close>

lemma calculate_vote_power_nonneg: "0 \<le> calculate_vote_power t"
  by (simp add: calculate_vote_power_def)

lemma direction_power_nonneg: "0 \<le> direction_power d votes"
  unfolding direction_power_def
  by (rule sum_list_nonneg) (auto simp: calculate_vote_power_nonneg)

lemma direction_power_append:
  "direction_power d (xs @ ys) = direction_power d xs + direction_power d ys"
  by (simp add: direction_power_def)

lemma tally_loop_sums:
  "tally_loop votes (f, a) =
     (f + direction_power ''for'' votes, a + direction_power ''against'' votes)"
proof (induction votes arbitrary: f a)
  case Nil
  show ?case by (simp add: direction_power_def)
next
  case (Cons v vs)
  show ?case by (simp add: Cons.IH direction_power_def Let_def)
qed

lemma rhe_bounds: "\<lfloor>y\<rfloor> \<le> round_half_even y \<and> round_half_even y \<le> \<lfloor>y\<rfloor> + 1"
  by (simp add: round_half_even_def Let_def)

lemma rhe_mono:
  assumes "y1 \<le> y2"
  shows "round_half_even y1 \<le> round_half_even y2"
proof (cases "\<lfloor>y1\<rfloor> < \<lfloor>y2\<rfloor>")
  case True
  then show ?thesis using rhe_bounds [of y1] rhe_bounds [of y2] by linarith
next
  case False
  then have eq: "\<lfloor>y1\<rfloor> = \<lfloor>y2\<rfloor>" using floor_mono [OF assms] by linarith
  show ?thesis using assms unfolding round_half_even_def Let_def eq by auto
qed

lemma py_round2_mono: "x \<le> y \<Longrightarrow> py_round2 x \<le> py_round2 y"
  unfolding py_round2_def using rhe_mono [of "x * 100" "y * 100"]
  by (simp add: divide_right_mono)

lemma tally_votes_approval:
  "approval_percentage (tally_votes q votes) = py_round2 (approval_share votes)"
  by (simp add: tally_votes_def tally_loop_sums approval_share_def Let_def)

lemma share_for_grows:
  fixes f a p :: real
  assumes "0 \<le> f" "0 \<le> a" "0 \<le> p"
  shows "(if f + a > 0 then f / (f + a) * 100 else 0)
       \<le> (if (f + p) + a > 0 then (f + p) / ((f + p) + a) * 100 else 0)"
proof (cases "f + a > 0")
  case True
  then have pos: "0 < f + p + a" using assms by linarith
  have "f * (f + p + a) \<le> (f + p) * (f + a)"
    using mult_nonneg_nonneg [OF assms(3) assms(2)] by (simp add: algebra_simps)
  then have "f / (f + a) \<le> (f + p) / (f + p + a)"
    using True pos by (simp add: frac_le_eq divide_le_0_iff algebra_simps field_simps)
  then have "f / (f + a) * 100 \<le> (f + p) / (f + p + a) * 100"
    by (rule mult_right_mono) simp
  then show ?thesis unfolding if_P [OF True] if_P [OF pos] .
next
  case False
  then show ?thesis using assms by (auto intro!: divide_nonneg_nonneg mult_nonneg_nonneg)
qed

lemma share_against_shrinks:
  fixes f a p :: real
  assumes "0 \<le> f" "0 \<le> a" "0 \<le> p"
  shows "(if f + (a + p) > 0 then f / (f + (a + p)) * 100 else 0)
       \<le> (if f + a > 0 then f / (f + a) * 100 else 0)"
proof (cases "f + a > 0")
  case True
  then have pos: "0 < f + (a + p)" using assms by linarith
  have "f / (f + (a + p)) \<le> f / (f + a)"
    using True assms by (intro divide_left_mono) (auto intro: mult_pos_pos)
  then have "f / (f + (a + p)) * 100 \<le> f / (f + a) * 100"
    by (rule mult_right_mono) simp
  then show ?thesis unfolding if_P [OF True] if_P [OF pos] .
next
  case False
  then have "f = 0" using assms by linarith
  then show ?thesis by simp
qed

lemma approval_share_for:
  assumes "vote_dir v = ''for''"
  shows "approval_share xs \<le> approval_share (xs @ [v])"
proof -
  have d: "direction_power ''for'' (xs @ [v]) =
             direction_power ''for'' xs + calculate_vote_power (tokens_spent v)"
          "direction_power ''against'' (xs @ [v]) = direction_power ''against'' xs"
    using assms by (simp_all add: direction_power_def)
  show ?thesis
    unfolding approval_share_def Let_def d
    by (rule share_for_grows)
       (simp_all add: direction_power_nonneg calculate_vote_power_nonneg)
qed

lemma approval_share_against:
  assumes "vote_dir v = ''against''"
  shows "approval_share (xs @ [v]) \<le> approval_share xs"
proof -
  have d: "direction_power ''against'' (xs @ [v]) =
             direction_power ''against'' xs + calculate_vote_power (tokens_spent v)"
          "direction_power ''for'' (xs @ [v]) = direction_power ''for'' xs"
    using assms by (simp_all add: direction_power_def)
  show ?thesis
    unfolding approval_share_def Let_def d
    by (rule share_against_shrinks)
       (simp_all add: direction_power_nonneg calculate_vote_power_nonneg)
qed

lemma simulate_impact:
  "impact (simulate_vote_impact q votes n d) =
     py_round2 (approval_share (votes @ [\<lparr>voter_id = ''simulated'', tokens_spent = n, vote_dir = d\<rparr>]))
       - py_round2 (approval_share votes)"
  by (simp add: simulate_vote_impact_def Let_def tally_votes_approval)

lemma rhe_zero: "round_half_even 0 = 0"
  by (simp add: round_half_even_def)

lemma py_round2_zero: "py_round2 0 = 0"
  by (simp add: py_round2_def rhe_zero)

lemma direction_power_skip:
  assumes "tokens_spent v \<le> 0 \<or> vote_dir v \<noteq> d"
  shows "direction_power d (xs @ v # ys) = direction_power d (xs @ ys)"
  using assms by (auto simp: direction_power_def calculate_vote_power_def)

lemma tally_votes_fields:
  "for_power (tally_votes q votes) = py_round2 (direction_power ''for'' votes)"
  "against_power (tally_votes q votes) = py_round2 (direction_power ''against'' votes)"
  "total_power (tally_votes q votes) =
     py_round2 (direction_power ''for'' votes + direction_power ''against'' votes)"
  "total_voters (tally_votes q votes) = length votes"
  "quorum_met (tally_votes q votes) = (3 \<le> length votes)"
  by (simp_all add: tally_votes_def tally_loop_sums Let_def)

lemma approval_share_skip:
  assumes "tokens_spent v \<le> 0 \<or> (vote_dir v \<noteq> ''for'' \<and> vote_dir v \<noteq> ''against'')"
  shows "approval_share (xs @ v # ys) = approval_share (xs @ ys)"
proof -
  have "direction_power ''for'' (xs @ v # ys) = direction_power ''for'' (xs @ ys)"
       "direction_power ''against'' (xs @ v # ys) = direction_power ''against'' (xs @ ys)"
    using assms by (auto intro: direction_power_skip)
  then show ?thesis by (simp add: approval_share_def)
qed

text \<open>
  The tally on the four votes of the specification's example: powers 11 against 23, a
  quorum of four voters, not approved.
\<close>

lemma sqrt_squares:
  "sqrt 100 = 10" "sqrt 400 = 20" "sqrt 9 = 3"
  by (rule real_sqrt_unique, simp, simp)+

lemma tally_votes_scenario:
  "for_power (tally_votes 50
      [\<lparr>voter_id = ''a'', tokens_spent = 100, vote_dir = ''for''\<rparr>,
       \<lparr>voter_id = ''b'', tokens_spent = 1, vote_dir = ''for''\<rparr>,
       \<lparr>voter_id = ''c'', tokens_spent = 400, vote_dir = ''against''\<rparr>,
       \<lparr>voter_id = ''d'', tokens_spent = 9, vote_dir = ''against''\<rparr>]) = 11 \<and>
   against_power (tally_votes 50
      [\<lparr>voter_id = ''a'', tokens_spent = 100, vote_dir = ''for''\<rparr>,
       \<lparr>voter_id = ''b'', tokens_spent = 1, vote_dir = ''for''\<rparr>,
       \<lparr>voter_id = ''c'', tokens_spent = 400, vote_dir = ''against''\<rparr>,
       \<lparr>voter_id = ''d'', tokens_spent = 9, vote_dir = ''against''\<rparr>]) = 23 \<and>
   quorum_met (tally_votes 50
      [\<lparr>voter_id = ''a'', tokens_spent = 100, vote_dir = ''for''\<rparr>,
       \<lparr>voter_id = ''b'', tokens_spent = 1, vote_dir = ''for''\<rparr>,
       \<lparr>voter_id = ''c'', tokens_spent = 400, vote_dir = ''against''\<rparr>,
       \<lparr>voter_id = ''d'', tokens_spent = 9, vote_dir = ''against''\<rparr>]) \<and>
   \<not> approved (tally_votes 50
      [\<lparr>voter_id = ''a'', tokens_spent = 100, vote_dir = ''for''\<rparr>,
       \<lparr>voter_id = ''b'', tokens_spent = 1, vote_dir = ''for''\<rparr>,
       \<lparr>voter_id = ''c'', tokens_spent = 400, vote_dir = ''against''\<rparr>,
       \<lparr>voter_id = ''d'', tokens_spent = 9, vote_dir = ''against''\<rparr>])"
  by (simp add: tally_votes_def calculate_vote_power_def sqrt_squares Let_def
        py_round2_def round_half_even_def)

text \<open>
  Claim C3, as stated, asks for three distinct voters.  The tally counts list elements:
  three ballots of the single voter \<open>a\<close>, each for the loan with 4 tokens, are approved.
\<close>

theorem tally_votes_distinct_voters_counterexample:
  "approved (tally_votes 50 [\<lparr>voter_id = ''a'', tokens_spent = 4, vote_dir = ''for''\<rparr>, \<lparr>voter_id = ''a'', tokens_spent = 4, vote_dir = ''for''\<rparr>, \<lparr>voter_id = ''a'', tokens_spent = 4, vote_dir = ''for''\<rparr>]) \<and> \<not> 3 \<le> distinct_voters [\<lparr>voter_id = ''a'', tokens_spent = 4, vote_dir = ''for''\<rparr>, \<lparr>voter_id = ''a'', tokens_spent = 4, vote_dir = ''for''\<rparr>, \<lparr>voter_id = ''a'', tokens_spent = 4, vote_dir = ''for''\<rparr>]"
  by (simp add: tally_votes_def calculate_vote_power_def Let_def distinct_voters_def)

text \<open>
  Claim C3, amended: the loan is approved if and only if the vote list has at least three
  elements (ballots, whoever cast them) and the approval share in percent, taken before
  rounding and 0 when no power was cast, is at least the quorum percentage.
\<close>

theorem tally_votes_approved_iff:
  "approved (tally_votes q votes) \<longleftrightarrow> 3 \<le> length votes \<and> q \<le> approval_share votes"
  by (simp add: tally_votes_def tally_loop_sums approval_share_def Let_def)

theorem tally_votes_approved_iff_witness:
  "approved (tally_votes 50 [\<lparr>voter_id = ''a'', tokens_spent = 4, vote_dir = ''for''\<rparr>, \<lparr>voter_id = ''b'', tokens_spent = 4, vote_dir = ''for''\<rparr>, \<lparr>voter_id = ''c'', tokens_spent = 4, vote_dir = ''for''\<rparr>]) \<and> approval_share [\<lparr>voter_id = ''a'', tokens_spent = 4, vote_dir = ''for''\<rparr>, \<lparr>voter_id = ''b'', tokens_spent = 4, vote_dir = ''for''\<rparr>, \<lparr>voter_id = ''c'', tokens_spent = 4, vote_dir = ''for''\<rparr>] = 100"
  using tally_votes_approved_iff [of 50 "[\<lparr>voter_id = ''a'', tokens_spent = 4, vote_dir = ''for''\<rparr>, \<lparr>voter_id = ''b'', tokens_spent = 4, vote_dir = ''for''\<rparr>, \<lparr>voter_id = ''c'', tokens_spent = 4, vote_dir = ''for''\<rparr>]"]
  by (simp add: approval_share_def direction_power_def calculate_vote_power_def)

text \<open>
  Claim C8, as stated, fails: an ``against'' vote added to an empty ballot leaves the
  approval at 0, and a ``for'' vote added to a unanimous ballot leaves it at 100, so the
  impact is 0 in both cases.
\<close>

theorem simulate_vote_impact_sign_counterexample:
  "\<not> impact (simulate_vote_impact 50 [] 4 ''against'') < 0 \<and>
   \<not> 0 < impact (simulate_vote_impact 50 [\<lparr>voter_id = ''a'', tokens_spent = 4, vote_dir = ''for''\<rparr>] 4 ''for'')"
  by (simp add: simulate_impact approval_share_def direction_power_def
        calculate_vote_power_def py_round2_zero)

text \<open>
  Claim C8, amended: the impact never has the sign opposite to the added vote.  It is
  at least 0 for a ``for'' vote and at most 0 for an ``against'' vote.
\<close>

theorem simulate_vote_impact_weak_sign:
  "(d = ''for'' \<longrightarrow> 0 \<le> impact (simulate_vote_impact q votes n d)) \<and>
   (d = ''against'' \<longrightarrow> impact (simulate_vote_impact q votes n d) \<le> 0)"
proof (intro conjI impI)
  assume "d = ''for''"
  then show "0 \<le> impact (simulate_vote_impact q votes n d)"
    unfolding simulate_impact
    using py_round2_mono [OF approval_share_for
            [of "\<lparr>voter_id = ''simulated'', tokens_spent = n, vote_dir = d\<rparr>" votes]]
    by simp
next
  assume "d = ''against''"
  then show "impact (simulate_vote_impact q votes n d) \<le> 0"
    unfolding simulate_impact
    using py_round2_mono [OF approval_share_against
            [of "\<lparr>voter_id = ''simulated'', tokens_spent = n, vote_dir = d\<rparr>" votes]]
    by simp
qed

theorem simulate_vote_impact_weak_sign_witness:
  "0 \<le> impact (simulate_vote_impact 50 [\<lparr>voter_id = ''a'', tokens_spent = 4, vote_dir = ''against''\<rparr>] 4 ''for'') \<and>
   impact (simulate_vote_impact 50 [\<lparr>voter_id = ''a'', tokens_spent = 4, vote_dir = ''for''\<rparr>] 4 ''against'') \<le> 0"
  using simulate_vote_impact_weak_sign [of "''for''" 50 "[\<lparr>voter_id = ''a'', tokens_spent = 4, vote_dir = ''against''\<rparr>]" 4]
        simulate_vote_impact_weak_sign [of "''against''" 50 "[\<lparr>voter_id = ''a'', tokens_spent = 4, vote_dir = ''for''\<rparr>]" 4]
  by simp

text \<open>
  Claim C10: every element of the vote list counts toward \<open>total_voters\<close> and the
  quorum of three.  A vote with \<open>tokens_spent \<le> 0\<close>, or one whose direction is neither
  ``for'' nor ``against'', adds one voter and leaves every power and the approval
  percentage as they were, wherever it stands in the list.  Such a vote can decide the
  outcome: two ``for'' ballots are not approved, and adding a third ballot with 0 tokens
  makes them approved at the same approval percentage.
\<close>

theorem tally_votes_counts_powerless_votes:
  "total_voters (tally_votes q votes) = length votes \<and>
   quorum_met (tally_votes q votes) = (3 \<le> length votes) \<and>
   (tokens_spent v \<le> 0 \<or> (vote_dir v \<noteq> ''for'' \<and> vote_dir v \<noteq> ''against'') \<longrightarrow>
      total_voters (tally_votes q (xs @ v # ys)) = total_voters (tally_votes q (xs @ ys)) + 1 \<and>
      for_power (tally_votes q (xs @ v # ys)) = for_power (tally_votes q (xs @ ys)) \<and>
      against_power (tally_votes q (xs @ v # ys)) = against_power (tally_votes q (xs @ ys)) \<and>
      approval_percentage (tally_votes q (xs @ v # ys)) =
        approval_percentage (tally_votes q (xs @ ys))) \<and>
   (\<not> quorum_met (tally_votes 50 [\<lparr>voter_id = ''a'', tokens_spent = 4, vote_dir = ''for''\<rparr>, \<lparr>voter_id = ''b'', tokens_spent = 4, vote_dir = ''for''\<rparr>]) \<and> \<not> approved (tally_votes 50 [\<lparr>voter_id = ''a'', tokens_spent = 4, vote_dir = ''for''\<rparr>, \<lparr>voter_id = ''b'', tokens_spent = 4, vote_dir = ''for''\<rparr>]) \<and>
    quorum_met (tally_votes 50 [\<lparr>voter_id = ''a'', tokens_spent = 4, vote_dir = ''for''\<rparr>, \<lparr>voter_id = ''b'', tokens_spent = 4, vote_dir = ''for''\<rparr>, \<lparr>voter_id = ''c'', tokens_spent = 0, vote_dir = ''for''\<rparr>]) \<and> approved (tally_votes 50 [\<lparr>voter_id = ''a'', tokens_spent = 4, vote_dir = ''for''\<rparr>, \<lparr>voter_id = ''b'', tokens_spent = 4, vote_dir = ''for''\<rparr>, \<lparr>voter_id = ''c'', tokens_spent = 0, vote_dir = ''for''\<rparr>]) \<and>
    approval_percentage (tally_votes 50 [\<lparr>voter_id = ''a'', tokens_spent = 4, vote_dir = ''for''\<rparr>, \<lparr>voter_id = ''b'', tokens_spent = 4, vote_dir = ''for''\<rparr>, \<lparr>voter_id = ''c'', tokens_spent = 0, vote_dir = ''for''\<rparr>]) =
      approval_percentage (tally_votes 50 [\<lparr>voter_id = ''a'', tokens_spent = 4, vote_dir = ''for''\<rparr>, \<lparr>voter_id = ''b'', tokens_spent = 4, vote_dir = ''for''\<rparr>]))"
proof (intro conjI impI)
  assume v: "tokens_spent v \<le> 0 \<or> (vote_dir v \<noteq> ''for'' \<and> vote_dir v \<noteq> ''against'')"
  then have skip:
    "direction_power ''for'' (xs @ v # ys) = direction_power ''for'' (xs @ ys)"
    "direction_power ''against'' (xs @ v # ys) = direction_power ''against'' (xs @ ys)"
    by (auto intro: direction_power_skip)
  show "total_voters (tally_votes q (xs @ v # ys)) = total_voters (tally_votes q (xs @ ys)) + 1"
    by (simp add: tally_votes_fields)
  show "for_power (tally_votes q (xs @ v # ys)) = for_power (tally_votes q (xs @ ys))"
    by (simp add: tally_votes_fields skip)
  show "against_power (tally_votes q (xs @ v # ys)) = against_power (tally_votes q (xs @ ys))"
    by (simp add: tally_votes_fields skip)
  show "approval_percentage (tally_votes q (xs @ v # ys)) =
        approval_percentage (tally_votes q (xs @ ys))"
    by (simp add: tally_votes_approval approval_share_skip [OF v])
next
  show "approval_percentage (tally_votes 50 [\<lparr>voter_id = ''a'', tokens_spent = 4, vote_dir = ''for''\<rparr>, \<lparr>voter_id = ''b'', tokens_spent = 4, vote_dir = ''for''\<rparr>, \<lparr>voter_id = ''c'', tokens_spent = 0, vote_dir = ''for''\<rparr>]) =
        approval_percentage (tally_votes 50 [\<lparr>voter_id = ''a'', tokens_spent = 4, vote_dir = ''for''\<rparr>, \<lparr>voter_id = ''b'', tokens_spent = 4, vote_dir = ''for''\<rparr>])"
    using approval_share_skip [of "\<lparr>voter_id = ''c'', tokens_spent = 0, vote_dir = ''for''\<rparr>" "[\<lparr>voter_id = ''a'', tokens_spent = 4, vote_dir = ''for''\<rparr>, \<lparr>voter_id = ''b'', tokens_spent = 4, vote_dir = ''for''\<rparr>]" "[]"]
    by (simp add: tally_votes_approval)
qed (simp_all add: tally_votes_fields tally_votes_def tally_loop_sums direction_power_def
       calculate_vote_power_def Let_def)

theorem tally_votes_counts_powerless_votes_witness:
  "tokens_spent (\<lparr>voter_id = ''c'', tokens_spent = 0, vote_dir = ''for''\<rparr>) \<le> 0 \<and>
   total_voters (tally_votes 50 ([\<lparr>voter_id = ''a'', tokens_spent = 4, vote_dir = ''for''\<rparr>] @ \<lparr>voter_id = ''c'', tokens_spent = 0, vote_dir = ''for''\<rparr> # [\<lparr>voter_id = ''b'', tokens_spent = 4, vote_dir = ''for''\<rparr>])) = 3 \<and>
   approval_percentage (tally_votes 50 ([\<lparr>voter_id = ''a'', tokens_spent = 4, vote_dir = ''for''\<rparr>] @ \<lparr>voter_id = ''c'', tokens_spent = 0, vote_dir = ''for''\<rparr> # [\<lparr>voter_id = ''b'', tokens_spent = 4, vote_dir = ''for''\<rparr>])) =
     approval_percentage (tally_votes 50 ([\<lparr>voter_id = ''a'', tokens_spent = 4, vote_dir = ''for''\<rparr>] @ [\<lparr>voter_id = ''b'', tokens_spent = 4, vote_dir = ''for''\<rparr>]))"
  using tally_votes_counts_powerless_votes [of 50 "[\<lparr>voter_id = ''a'', tokens_spent = 4, vote_dir = ''for''\<rparr>, \<lparr>voter_id = ''b'', tokens_spent = 4, vote_dir = ''for''\<rparr>]" "\<lparr>voter_id = ''c'', tokens_spent = 0, vote_dir = ''for''\<rparr>" "[\<lparr>voter_id = ''a'', tokens_spent = 4, vote_dir = ''for''\<rparr>]" "[\<lparr>voter_id = ''b'', tokens_spent = 4, vote_dir = ''for''\<rparr>]"]
  by (simp add: tally_votes_fields)

section \<open>Reasoning traces: the aggregate confidence\<close>

lemma add_thought_steps:
  "add_thought ty txt c tr = Inr tr' \<Longrightarrow>
     steps tr' = steps tr @ [\<lparr>step_number = length (steps tr) + 1, thought_type = ty,
                               content = txt, confidence = c\<rparr>] \<and>
     total_confidence tr' = total_confidence tr \<and> final_decision tr' = final_decision tr"
  by (auto simp: add_thought_def split: if_splits)

lemma upto_last_conclusion_snoc:
  "upto_last_conclusion (ss @ [s]) =
     (if thought_type s = CONCLUSION then ss @ [s] else upto_last_conclusion ss)"
  by (simp add: upto_last_conclusion_def)

lemma conclude_result:
  assumes "conclude txt c tr = Inr tr'"
  shows "\<exists>s. thought_type s = CONCLUSION \<and> steps tr' = steps tr @ [s] \<and>
             total_confidence tr' = mean_confidence (steps tr')"
proof -
  from assms obtain tr1 where a: "add_thought CONCLUSION txt c tr = Inr tr1"
    and tr': "tr' = tr1 \<lparr> final_decision := Some txt,
                total_confidence := sum_list (map confidence (steps tr1)) / real (length (steps tr1)) \<rparr>"
    by (auto simp: conclude_def split: sum.splits)
  from add_thought_steps [OF a] show ?thesis
    by (simp add: tr' mean_confidence_def)
qed

lemma other_call_result:
  assumes "apply_call c tr = Inr tr'" "\<And>txt k. c \<noteq> Conclude txt k"
  shows "\<exists>s. thought_type s \<noteq> CONCLUSION \<and> steps tr' = steps tr @ [s] \<and>
             total_confidence tr' = total_confidence tr"
  using assms
  by (cases c)
     (auto simp: observe_def analyze_def hypothesize_def act_def reflect_def
           dest!: add_thought_steps)

lemma produced_total_confidence:
  assumes "produced tr"
  shows "total_confidence tr = mean_confidence (upto_last_conclusion (steps tr))"
  using assms
proof (induction rule: produced.induct)
  case (fresh name tsk)
  show ?case by (simp add: create_trace_def upto_last_conclusion_def mean_confidence_def)
next
  case (call tr c tr')
  show ?case
  proof (cases "\<exists>txt k. c = Conclude txt k")
    case True
    then obtain msg k where "c = Conclude msg k" by blast
    with call.hyps(2) have "conclude msg k tr = Inr tr'" by simp
    from conclude_result [OF this] show ?thesis
      by (auto simp: upto_last_conclusion_snoc)
  next
    case False
    then have "\<And>txt k. c \<noteq> Conclude txt k" by blast
    from other_call_result [OF call.hyps(2) this] call.IH show ?thesis
      by (auto simp: upto_last_conclusion_snoc)
  qed
qed

lemma upto_last_conclusion_last:
  "ss \<noteq> [] \<Longrightarrow> thought_type (last ss) = CONCLUSION \<Longrightarrow> upto_last_conclusion ss = ss"
  by (cases ss rule: rev_cases) (simp_all add: upto_last_conclusion_snoc)

lemma upto_last_conclusion_none:
  "\<forall>s\<in>set ss. thought_type s \<noteq> CONCLUSION \<Longrightarrow> upto_last_conclusion ss = []"
  by (induction ss rule: rev_induct) (simp_all add: upto_last_conclusion_snoc upto_last_conclusion_def)

lemma keeps_return: "keeps (\<lambda>tr. (tr, x))"
  by (simp add: keeps_def)

lemma keeps_then_do:
  assumes "keeps rest"
  shows "keeps (then_do (apply_call c) rest)"
  unfolding keeps_def
proof (intro allI impI)
  fix tr assume p: "produced tr"
  show "produced (fst (then_do (apply_call c) rest tr))"
  proof (cases "apply_call c tr")
    case (Inl e)
    then show ?thesis using p by (simp add: then_do_def)
  next
    case (Inr tr')
    then have "produced tr'" using p by (rule produced.call [rotated])
    then show ?thesis using assms Inr by (simp add: then_do_def keeps_def)
  qed
qed

lemma call_eq:
  "observe t c = apply_call (Observe t c)"
  "analyze t c = apply_call (Analyze t c)"
  "hypothesize t c = apply_call (Hypothesize t c)"
  "act t c = apply_call (Act t c)"
  "reflect t c = apply_call (Reflect t c)"
  "conclude t c = apply_call (Conclude t c)"
  by (rule ext, simp)+

lemma keeps_nova_body: "keeps (nova_body d g ctx)"
proof (cases d)
  case (Inl e)
  then show ?thesis
    by (simp add: nova_body_def call_eq keeps_then_do keeps_return)
next
  case (Inr p)
  obtain intent conf where p: "p = (intent, conf)" by (cases p)
  consider (loan) "intent \<in> {''loan_request'', ''loan_inquiry''}"
    | (trust) "intent \<notin> {''loan_request'', ''loan_inquiry''}" "intent \<in> {''trust_score'', ''reputation''}"
    | (other) "intent \<notin> {''loan_request'', ''loan_inquiry''}" "intent \<notin> {''trust_score'', ''reputation''}"
    by blast
  then show ?thesis
  proof cases
    case loan
    then show ?thesis using Inr p
      by (simp add: nova_body_def call_eq keeps_then_do keeps_return del: insert_iff)
  next
    case trust
    then show ?thesis using Inr p
      by (simp add: nova_body_def call_eq keeps_then_do keeps_return del: insert_iff)
  next
    case other
    then show ?thesis using Inr p
      by (cases g) (simp_all add: nova_body_def call_eq keeps_then_do keeps_return del: insert_iff)
  qed
qed

lemma agent_failure_produced:
  assumes "produced tr"
  shows "produced (reasoning_trace (agent_failure name t c extra e tr))"
proof (cases "reflect t c tr")
  case (Inl e')
  then show ?thesis using assms by (simp add: agent_failure_def)
next
  case (Inr tr')
  then have "apply_call (Reflect t c) tr = Inr tr'" by simp
  from produced.call [OF assms this] Inr show ?thesis by (simp add: agent_failure_def)
qed

lemma nova_trace_produced: "produced (reasoning_trace (fst (nova_execute d g ctx)))"
proof -
  have "produced (fst (nova_body d g ctx (create_trace ''Nova'' ''Respond to'')))"
    using keeps_nova_body [of d g ctx] produced.fresh by (simp add: keeps_def)
  then show ?thesis
    by (auto simp: nova_execute_def agent_failure_produced split: prod.splits sum.splits)
qed

lemma keeps_case_pair:
  assumes "keeps f" "\<And>x. keeps (g x)"
  shows "keeps (\<lambda>tr. case f tr of (tr', Inl e) \<Rightarrow> (tr', Inl e) | (tr', Inr x) \<Rightarrow> g x tr')"
  using assms by (auto simp: keeps_def split: prod.splits sum.splits)

lemma keeps_create_loan_draft: "keeps (create_loan_draft ctx)"
proof (cases "find_best_circle (circles ctx)")
  case None
  then show ?thesis by (simp add: create_loan_draft_def call_eq keeps_then_do keeps_return)
next
  case (Some bc)
  show ?thesis
  proof (cases "bc = []")
    case True
    then show ?thesis using Some
      by (simp add: create_loan_draft_def call_eq keeps_then_do keeps_return)
  next
    case False
    then show ?thesis using Some
      by (cases "bind_err
                        (py_get (dict_get (agent_results ctx) ''RiskOracle'' (PDict []))
                           ''recommendation'' (PDict []))
                        (\<lambda>r. py_get r ''max_loan'' (PInt 10000))")
         (simp_all add: create_loan_draft_def call_eq keeps_then_do keeps_return)
  qed
qed

lemma keeps_action_tail:
  "keeps (\<lambda>tr.
            if intent = PStr ''loan_request'' then
              (case create_loan_draft ctx tr of
                 (tr', Inl e) \<Rightarrow> (tr', Inl e)
               | (tr', Inr data) \<Rightarrow>
                   then_do (conclude ''Action execution complete'' 0.85)
                     (\<lambda>tr. (tr, Inr data)) tr')
            else if intent = PStr ''check_score'' then
              then_do (conclude ''Action execution complete'' 0.85)
                (\<lambda>tr. (tr, Inr [(''action'', PStr ''NAVIGATE''),
                                (''target'', PStr ''/trust''),
                                (''message'', PStr ''Let's check your trust score.'')])) tr
            else
              then_do (analyze ''No specific database action required for this intent.'' 0.8)
                (then_do (conclude ''Action execution complete'' 0.85)
                   (\<lambda>tr. (tr, Inr []))) tr)"
proof -
  consider (loan) "intent = PStr ''loan_request''"
    | (score) "intent \<noteq> PStr ''loan_request''" "intent = PStr ''check_score''"
    | (other) "intent \<noteq> PStr ''loan_request''" "intent \<noteq> PStr ''check_score''"
    by blast
  then show ?thesis
  proof cases
    case loan
    show ?thesis
      apply (simp only: loan simp_thms if_True call_eq)
      apply (rule keeps_case_pair [OF keeps_create_loan_draft])
      apply (rule keeps_then_do [OF keeps_return])
      done
  next
    case score
    show ?thesis
      apply (simp only: score(1) if_False)
      apply (simp only: score(2) simp_thms if_True call_eq)
      apply (rule keeps_then_do [OF keeps_return])
      done
  next
    case other
    show ?thesis
      apply (simp only: other simp_thms if_False call_eq)
      apply (intro keeps_then_do keeps_return)
      done
  qed
qed

lemma keeps_action_body: "keeps (action_body ctx)"
  unfolding keeps_def
proof (intro allI impI)
  fix tr
  assume p: "produced tr"
  show "produced (fst (action_body ctx tr))"
  proof (cases "case map_of (agent_results ctx) ''Nova'' of
                  None \<Rightarrow> Inr (PStr ''general'')
                | Some nova \<Rightarrow> py_get nova ''intent'' (PStr ''general'')")
    case (Inl e)
    then show ?thesis using p by (simp add: action_body_def)
  next
    case (Inr intent0)
    show ?thesis
      unfolding action_body_def Inr sum.case Let_def call_eq
      by (rule keeps_then_do [OF keeps_action_tail, unfolded keeps_def call_eq, rule_format, OF p])
  qed
qed

lemma action_trace_produced: "produced (reasoning_trace (fst (action_agent_execute ctx)))"
proof -
  have "produced (fst (action_body ctx (create_trace ''ActionAgent'' ''Processing action for request'')))"
    using keeps_action_body [of ctx] produced.fresh by (simp add: keeps_def)
  then show ?thesis
    by (auto simp: action_agent_execute_def agent_failure_produced split: prod.splits sum.splits)
qed

lemmas trace_eval =
  nova_execute_def nova_body_def then_do_def observe_def analyze_def hypothesize_def
  act_def reflect_def conclude_def add_thought_def create_trace_def mean_confidence_def
  agent_failure_def

text \<open>
  Claim C2, as stated, fails.  Nova hands a loan request over to the LoanAdvisor after
  three steps without concluding, and an execution whose language-model call raises ends
  with an observation and a reflection: both traces keep \<open>total_confidence = 0\<close> while
  the mean of their step confidences is 0.9 and 0.625.
\<close>

theorem nova_total_confidence_counterexample:
  "total_confidence (reasoning_trace (fst
       (nova_execute (Inr (''loan_request'', 0.9)) (Inr ''Namaste'') example_context))) = 0 \<and>
   mean_confidence (steps (reasoning_trace (fst
       (nova_execute (Inr (''loan_request'', 0.9)) (Inr ''Namaste'') example_context)))) = 9 / 10 \<and>
   total_confidence (reasoning_trace (fst
       (nova_execute (Inl (Raised ''LLM unavailable'')) (Inr ''Namaste'') example_context))) = 0 \<and>
   mean_confidence (steps (reasoning_trace (fst
       (nova_execute (Inl (Raised ''LLM unavailable'')) (Inr ''Namaste'') example_context)))) = 5 / 8"
  by (simp add: trace_eval)

text \<open>
  Claim C2, amended: \<open>total_confidence\<close> is set by \<open>conclude\<close> only.  For every trace
  an execution produces it equals the mean of the confidences of the steps up to and
  including the last conclusion step; so it is the mean of all steps when the trace ends
  with its conclusion, and 0 when the trace has no conclusion step (a failed execution
  before its conclusion, or a hand-over).
\<close>

theorem trace_total_confidence:
  assumes "produced tr"
  shows "total_confidence tr = mean_confidence (upto_last_conclusion (steps tr)) \<and>
         (steps tr \<noteq> [] \<and> thought_type (last (steps tr)) = CONCLUSION \<longrightarrow>
            total_confidence tr = mean_confidence (steps tr)) \<and>
         ((\<forall>s\<in>set (steps tr). thought_type s \<noteq> CONCLUSION) \<longrightarrow> total_confidence tr = 0)"
  using produced_total_confidence [OF assms]
  by (auto simp: upto_last_conclusion_last upto_last_conclusion_none mean_confidence_def)

theorem trace_total_confidence_witness:
  "produced (reasoning_trace (fst
       (nova_execute (Inr (''greeting'', 0.9)) (Inr ''Namaste'') example_context))) \<and>
   thought_type (last (steps (reasoning_trace (fst
       (nova_execute (Inr (''greeting'', 0.9)) (Inr ''Namaste'') example_context))))) = CONCLUSION \<and>
   total_confidence (reasoning_trace (fst
       (nova_execute (Inr (''greeting'', 0.9)) (Inr ''Namaste'') example_context))) =
   mean_confidence (steps (reasoning_trace (fst
       (nova_execute (Inr (''greeting'', 0.9)) (Inr ''Namaste'') example_context))))"
  using trace_total_confidence [OF nova_trace_produced
          [of "Inr (''greeting'', 0.9)" "Inr ''Namaste''" example_context]]
        nova_trace_produced [of "Inr (''greeting'', 0.9)" "Inr ''Namaste''" example_context]
  by (simp add: trace_eval add_trace_def)

section \<open>The orchestrator: loan and vouch requests, response synthesis\<close>

lemma bind_err_Inr [simp]: "bind_err (Inr x) f = f x"
  by (simp add: bind_err_def)

lemma bind_err_Inl [simp]: "bind_err (Inl e) f = Inl e"
  by (simp add: bind_err_def)

lemma py_min3_num:
  assumes "py_num b = Some nb" "py_num c = Some nc"
  shows "\<exists>v. py_min3 a b c = Inr v \<and> py_num v = Some (min a (min nb nc))"
  using assms by (auto simp: py_min3_def Let_def min_def)

lemma mastra_falls_through_early:
  assumes "mastra_falls_through url m"
  shows "(if url \<noteq> [] then mastra_loan_reply m amount else Inr None) = Inr None"
  using assms
  by (cases m) (auto simp: mastra_falls_through_def mastra_loan_reply_def)

lemmas agent_eval =
  fixed_agent_def advisor_agent_def loan_advisor_recommendation_def get_trust_multiplier_def
  example_context_def dict_get_def loan_context_def fraud_verdict_def
  advisor_recommendation_def risk_recommendation_def

text \<open>
  What the LoanAdvisor's recommendation holds: \<open>can_borrow\<close> is true exactly when the
  safe EMI is positive and the trust score is at least 20, and \<open>max_amount\<close> is then the
  trust-based limit capped at 50000.
\<close>

lemma loan_advisor_can_borrow:
  "py_truthy (dict_get (loan_advisor_recommendation monthly emi ts lang) ''can_borrow'' (PBool False))
     \<longleftrightarrow> 0 < monthly * 0.3 - emi \<and> 20 \<le> ts"
  by (auto simp: loan_advisor_recommendation_def dict_get_def Let_def)

lemma loan_advisor_max_amount:
  assumes "0 < monthly * 0.3 - emi" "20 \<le> ts"
  shows "py_num (dict_get (loan_advisor_recommendation monthly emi ts lang) ''max_amount'' (PInt 0))
           = Some (min ((5000 + of_int ts * 450) * get_trust_multiplier ts) 50000)"
  using assms
  by (auto simp: loan_advisor_recommendation_def dict_get_def Let_def min_def)

text \<open>
  Claim C1, as stated, fails: \<open>process_loan_request\<close> asks the Mastra workflow first
  (\<open>settings.mastra_service_url\<close> defaults to \<open>http://localhost:4000\<close>) and returns its
  answer when that reports success.  Here the FraudGuard would block and the LoanAdvisor
  would refuse (\<open>can_borrow = False\<close>), yet the request is approved for 99999 and no
  agent is run.
\<close>

theorem process_loan_request_mastra_counterexample:
  "fraud_verdict (fixed_agent ''FraudGuard'' [(''verdict'', PStr ''BLOCK'')]) example_context
     = PStr ''BLOCK'' \<and>
   advisor_recommendation
     (fixed_agent ''FraudGuard'' [(''verdict'', PStr ''BLOCK'')])
     (fixed_agent ''RiskOracle'' [])
     (advisor_agent 0 0) example_context =
   PDict [(''can_borrow'', PBool False),
          (''reason'', PStr ''existing_emi_too_high''),
          (''advice'', PStr ''Pay off current loans first to qualify for new loan''),
          (''suggested_action'', PStr ''wait'')] \<and>
   process_loan_request ''http://localhost:4000'' mastra_approval
     (fixed_agent ''FraudGuard'' [(''verdict'', PStr ''BLOCK'')])
     (fixed_agent ''RiskOracle'' [])
     (advisor_agent 0 0) example_context 99999 =
   Inr \<lparr> reply_fields =
           [(''approved'', PBool True),
            (''approved_amount'', PInt 99999),
            (''requested_amount'', PFloat 99999),
            (''risk_category'', PNone),
            (''recommendation'', PDict []),
            (''reasoning_traces'', PList [])],
         reply_traces = [],
         executed = [] \<rparr>"
  by (simp add: agent_eval process_loan_request_def mastra_loan_reply_def mastra_approval_def)

text \<open>
  Claim C1, amended: whenever the Mastra branch does not return (no service URL, or an
  answer without a truthy \<open>success\<close>), a FraudGuard verdict \<open>BLOCK\<close> returns the decline
  after the FraudGuard alone has run; otherwise the three agents run, \<open>approved\<close> is the
  truth value of the LoanAdvisor's \<open>can_borrow\<close> (\<open>False\<close> when missing), and when approved
  the approved amount is the minimum of the requested amount, the LoanAdvisor's
  \<open>max_amount\<close> and the RiskOracle's \<open>max_loan\<close>, each read as 0 when missing.
\<close>

theorem process_loan_request_local_pipeline:
  assumes mastra: "mastra_falls_through url m"
  shows
    "(fraud_verdict fg built = PStr ''BLOCK'' \<longrightarrow>
        process_loan_request url m fg ro la built amount =
          Inr \<lparr> reply_fields = [(''approved'', PBool False),
                                (''reason'', PStr ''Security check failed'')],
                reply_traces = [reasoning_trace (fst (fg (loan_context built)))],
                executed = [''FraudGuard''] \<rparr>) \<and>
     (fraud_verdict fg built \<noteq> PStr ''BLOCK'' \<longrightarrow>
        (\<forall>rec. advisor_recommendation fg ro la built = PDict rec \<longrightarrow>
           (\<not> py_truthy (dict_get rec ''can_borrow'' (PBool False)) \<longrightarrow>
              (\<exists>r. process_loan_request url m fg ro la built amount = Inr r \<and>
                   dict_get (reply_fields r) ''approved'' PNone = PBool False \<and>
                   executed r = [''FraudGuard'', ''RiskOracle'', ''LoanAdvisor''])) \<and>
           (py_truthy (dict_get rec ''can_borrow'' (PBool False)) \<longrightarrow>
              (\<forall>risk a b.
                 risk_recommendation fg ro built = PDict risk \<and>
                 py_num (dict_get rec ''max_amount'' (PInt 0)) = Some a \<and>
                 py_num (dict_get risk ''max_loan'' (PInt 0)) = Some b \<longrightarrow>
                 (\<exists>r. process_loan_request url m fg ro la built amount = Inr r \<and>
                      dict_get (reply_fields r) ''approved'' PNone = PBool True \<and>
                      py_num (dict_get (reply_fields r) ''approved_amount'' PNone) =
                        Some (min amount (min a b)) \<and>
                      executed r = [''FraudGuard'', ''RiskOracle'', ''LoanAdvisor''])))))"
proof -
  obtain fr c1 where f: "fg (built \<lparr>current_request := Some ''Loan request''\<rparr>) = (fr, c1)"
    by (cases "fg (built \<lparr>current_request := Some ''Loan request''\<rparr>)")
  obtain rr c2 where r: "ro c1 = (rr, c2)" by (cases "ro c1")
  obtain ar c3 where a: "la c2 = (ar, c3)" by (cases "la c2")
  note early = mastra_falls_through_early [OF mastra, of amount]
  have block: "dict_get (result fr) ''verdict'' PNone = PStr ''BLOCK'' \<Longrightarrow>
      process_loan_request url m fg ro la built amount =
          Inr \<lparr> reply_fields = [(''approved'', PBool False),
                                (''reason'', PStr ''Security check failed'')],
                reply_traces = [reasoning_trace fr],
                executed = [''FraudGuard''] \<rparr>"
    by (simp add: process_loan_request_def early f Let_def)
  have decline: "\<exists>r. process_loan_request url m fg ro la built amount = Inr r \<and>
                   dict_get (reply_fields r) ''approved'' PNone = PBool False \<and>
                   executed r = [''FraudGuard'', ''RiskOracle'', ''LoanAdvisor'']"
    if "dict_get (result fr) ''verdict'' PNone \<noteq> PStr ''BLOCK''"
       "dict_get (result ar) ''recommendation'' (PDict []) = PDict rec"
       "\<not> py_truthy (dict_get rec ''can_borrow'' (PBool False))" for rec
    using that by (simp add: process_loan_request_def early f r a Let_def dict_get_def)
  have approve: "\<exists>r. process_loan_request url m fg ro la built amount = Inr r \<and>
                      dict_get (reply_fields r) ''approved'' PNone = PBool True \<and>
                      py_num (dict_get (reply_fields r) ''approved_amount'' PNone) =
                        Some (min amount (min x y)) \<and>
                      executed r = [''FraudGuard'', ''RiskOracle'', ''LoanAdvisor'']"
    if "dict_get (result fr) ''verdict'' PNone \<noteq> PStr ''BLOCK''"
       "dict_get (result ar) ''recommendation'' (PDict []) = PDict rec"
       "py_truthy (dict_get rec ''can_borrow'' (PBool False))"
       "dict_get (result rr) ''recommendation'' (PDict []) = PDict risk"
       "py_num (dict_get rec ''max_amount'' (PInt 0)) = Some x"
       "py_num (dict_get risk ''max_loan'' (PInt 0)) = Some y" for rec risk x y
  proof -
    from py_min3_num [OF that(5) that(6), of amount] obtain v where
      v: "py_min3 amount (dict_get rec ''max_amount'' (PInt 0))
            (dict_get risk ''max_loan'' (PInt 0)) = Inr v"
         "py_num v = Some (min amount (min x y))" by blast
    show ?thesis using that(1-4) v
      by (simp add: process_loan_request_def early f r a Let_def dict_get_def)
  qed
  show ?thesis
    using block decline approve
    by (simp add: fraud_verdict_def advisor_recommendation_def risk_recommendation_def
          loan_context_def f r a)
qed

theorem process_loan_request_local_pipeline_witness:
  "mastra_falls_through [] mastra_approval \<and>
   fraud_verdict (fixed_agent ''FraudGuard'' [(''verdict'', PStr ''CLEAR'')]) example_context
     \<noteq> PStr ''BLOCK'' \<and>
   (\<exists>r. process_loan_request [] mastra_approval
           (fixed_agent ''FraudGuard'' [(''verdict'', PStr ''CLEAR'')])
           (fixed_agent ''RiskOracle'' [(''recommendation'', PDict [(''max_loan'', PInt 10000)])])
           (advisor_agent 20000 0) example_context 15000 = Inr r \<and>
        dict_get (reply_fields r) ''approved'' PNone = PBool True \<and>
        py_num (dict_get (reply_fields r) ''approved_amount'' PNone) = Some 10000)"
proof -
  have m: "mastra_falls_through [] mastra_approval"
    by (simp add: mastra_falls_through_def)
  have v: "fraud_verdict (fixed_agent ''FraudGuard'' [(''verdict'', PStr ''CLEAR'')]) example_context
     \<noteq> PStr ''BLOCK''"
    by (simp add: agent_eval)
  have rec: "advisor_recommendation
               (fixed_agent ''FraudGuard'' [(''verdict'', PStr ''CLEAR'')])
               (fixed_agent ''RiskOracle'' [(''recommendation'', PDict [(''max_loan'', PInt 10000)])])
               (advisor_agent 20000 0) example_context =
             PDict (loan_advisor_recommendation 20000 0 45 ''en'')"
    by (simp add: fixed_agent_def advisor_agent_def example_context_def dict_get_def
          loan_context_def advisor_recommendation_def)
  have risk: "risk_recommendation
               (fixed_agent ''FraudGuard'' [(''verdict'', PStr ''CLEAR'')])
               (fixed_agent ''RiskOracle'' [(''recommendation'', PDict [(''max_loan'', PInt 10000)])])
               example_context = PDict [(''max_loan'', PInt 10000)]"
    by (simp add: agent_eval)
  have can: "py_truthy (dict_get (loan_advisor_recommendation 20000 0 45 ''en'') ''can_borrow'' (PBool False))"
       "py_num (dict_get (loan_advisor_recommendation 20000 0 45 ''en'') ''max_amount'' (PInt 0)) = Some 25250"
       "py_num (dict_get [(''max_loan'', PInt 10000)] ''max_loan'' (PInt 0)) = Some 10000"
    by (simp_all add: loan_advisor_recommendation_def get_trust_multiplier_def dict_get_def)
  from process_loan_request_local_pipeline [OF m,
         of "fixed_agent ''FraudGuard'' [(''verdict'', PStr ''CLEAR'')]" example_context
            "fixed_agent ''RiskOracle'' [(''recommendation'', PDict [(''max_loan'', PInt 10000)])]"
            "advisor_agent 20000 0" 15000]
       v rec risk can
  have "\<exists>r. process_loan_request [] mastra_approval
           (fixed_agent ''FraudGuard'' [(''verdict'', PStr ''CLEAR'')])
           (fixed_agent ''RiskOracle'' [(''recommendation'', PDict [(''max_loan'', PInt 10000)])])
           (advisor_agent 20000 0) example_context 15000 = Inr r \<and>
        dict_get (reply_fields r) ''approved'' PNone = PBool True \<and>
        py_num (dict_get (reply_fields r) ''approved_amount'' PNone) = Some (min 15000 (min 25250 10000))"
    by blast
  then show ?thesis using m v by simp
qed

text \<open>
  Claim C9: when the FraudGuard's verdict on the vouchee is not \<open>BLOCK\<close>, every reply of
  \<open>process_vouch_request\<close> has \<open>recommended = True\<close>, whatever the TrustAnalyzer returned;
  and a reply is returned whenever the TrustAnalyzer's \<open>vouch_quality\<close> is a dictionary
  or missing (a failed analysis included).
\<close>

theorem process_vouch_request_recommended:
  assumes verdict:
    "dict_get (result (fst (fraud_guard (built \<lparr>current_request := Some ''Vouch request''\<rparr>))))
       ''verdict'' PNone \<noteq> PStr ''BLOCK''"
  shows
    "(\<forall>r. process_vouch_request fraud_guard trust_analyzer built = Inr r \<longrightarrow>
        dict_get (reply_fields r) ''recommended'' PNone = PBool True \<and>
        executed r = [''FraudGuard'', ''TrustAnalyzer'']) \<and>
     ((\<exists>d. dict_get
              (result (fst (trust_analyzer
                 (snd (fraud_guard (built \<lparr>current_request := Some ''Vouch request''\<rparr>))))))
              ''vouch_quality'' (PDict []) = PDict d) \<longrightarrow>
      (\<exists>r. process_vouch_request fraud_guard trust_analyzer built = Inr r))"
proof -
  obtain fr c1 where f: "fraud_guard (built \<lparr>current_request := Some ''Vouch request''\<rparr>) = (fr, c1)"
    by (cases "fraud_guard (built \<lparr>current_request := Some ''Vouch request''\<rparr>)")
  obtain tres c2 where t: "trust_analyzer c1 = (tres, c2)"
    by (cases "trust_analyzer c1")
  from verdict f have v: "dict_get (result fr) ''verdict'' PNone \<noteq> PStr ''BLOCK''" by simp
  show ?thesis
  proof (cases "dict_get (result tres) ''vouch_quality'' (PDict [])")
    case (PDict d)
    then show ?thesis using v
      by (simp add: process_vouch_request_def f t Let_def dict_get_def)
  qed (use v in \<open>simp_all add: process_vouch_request_def f t Let_def\<close>)
qed

theorem process_vouch_request_recommended_witness:
  "dict_get (result (fst (fixed_agent ''FraudGuard'' [(''verdict'', PStr ''REVIEW'')]
       (example_context \<lparr>current_request := Some ''Vouch request''\<rparr>)))) ''verdict'' PNone
     \<noteq> PStr ''BLOCK'' \<and>
   (\<exists>r. process_vouch_request (fixed_agent ''FraudGuard'' [(''verdict'', PStr ''REVIEW'')])
           (fixed_agent ''TrustAnalyzer'' [(''error'', PStr ''analysis failed'')])
           example_context = Inr r \<and>
        dict_get (reply_fields r) ''recommended'' PNone = PBool True)"
  using process_vouch_request_recommended
          [of "fixed_agent ''FraudGuard'' [(''verdict'', PStr ''REVIEW'')]" example_context
              "fixed_agent ''TrustAnalyzer'' [(''error'', PStr ''analysis failed'')]"]
  by (auto simp: fixed_agent_def dict_get_def)

lemmas action_eval =
  action_agent_execute_def action_body_def create_loan_draft_def find_best_circle_def
  then_do_def observe_def analyze_def act_def conclude_def add_thought_def create_trace_def
  loan_request_context_def example_context_def dict_get_def store_result_def
  synthesize_response_def

lemma synthesize_action_present:
  assumes "dict_get (agent_results ctx) ''ActionAgent'' (PDict []) = PDict a"
      and "py_truthy (dict_get a ''action'' PNone)"
  shows "synthesize_response ctx =
           Inr [(''message'', dict_get a ''message'' (PStr ''I'm on it!'')),
                (''action'', dict_get a ''action'' PNone),
                (''target'', dict_get a ''target'' PNone),
                (''data'', dict_get a ''state'' PNone),
                (''guide_steps'', dict_get a ''guide_steps'' PNone)]"
  using assms by (simp add: synthesize_response_def Let_def)

lemma create_loan_draft_guide_flow:
  assumes "create_loan_draft ctx tr = (tr', Inr d)"
      and "dict_get d ''action'' PNone = PStr ''GUIDE_FLOW''"
  shows "dict_get d ''target'' PNone = PNone \<and> dict_get d ''screen'' PNone = PStr ''/loans/apply''"
  using assms
  by (auto simp: create_loan_draft_def then_do_def dict_get_def
           split: option.splits if_splits sum.splits)

text \<open>
  Whatever the context, a \<open>GUIDE_FLOW\<close> result of the ActionAgent has its screen under
  \<open>screen\<close> and no \<open>target\<close>, so the response synthesized from it has \<open>target = None\<close>.
\<close>

lemma dict_get_dict_set: "dict_get (dict_set d k v) k dflt = v"
  by (induction d) (auto simp: dict_get_def)

lemma then_do_result:
  assumes "then_do stp rest tr = (tr', Inr d)"
  shows "\<exists>tr1. rest tr1 = (tr', Inr d)"
  using assms by (auto simp: then_do_def split: sum.splits)

lemma then_do_return:
  "then_do stp (\<lambda>tr. (tr, Inr x)) tr = (tr', Inr d) \<Longrightarrow> x = d"
  by (auto simp: then_do_def split: sum.splits)

lemma then_do_then_do_return:
  "then_do s1 (then_do s2 (\<lambda>tr. (tr, Inr x))) tr = (tr', Inr d) \<Longrightarrow> x = d"
  by (auto simp: then_do_def split: sum.splits)

lemma action_body_guide_flow:
  assumes "action_body ctx tr = (tr', Inr d)"
      and "dict_get d ''action'' PNone = PStr ''GUIDE_FLOW''"
  shows "dict_get d ''target'' PNone = PNone \<and> dict_get d ''screen'' PNone = PStr ''/loans/apply''"
proof -
  obtain intent0 where i0:
    "(case map_of (agent_results ctx) ''Nova'' of
        None \<Rightarrow> Inr (PStr ''general'')
      | Some nova \<Rightarrow> py_get nova ''intent'' (PStr ''general'')) = Inr intent0"
    using assms(1) by (auto simp: action_body_def split: sum.splits)
  define intent where
    "intent = (if \<not> py_truthy intent0 \<or> intent0 = PStr ''general''
               then dict_get (agent_results ctx) ''intent'' (PStr ''general'')
               else intent0)"
  have "action_body ctx tr =
          then_do (observe ''Detected intent for action'' 0.9)
            (\<lambda>tr.
               if intent = PStr ''loan_request'' then
                 (case create_loan_draft ctx tr of
                    (tr', Inl e) \<Rightarrow> (tr', Inl e)
                  | (tr', Inr data) \<Rightarrow>
                      then_do (conclude ''Action execution complete'' 0.85)
                        (\<lambda>tr. (tr, Inr data)) tr')
               else if intent = PStr ''check_score'' then
                 then_do (conclude ''Action execution complete'' 0.85)
                   (\<lambda>tr. (tr, Inr [(''action'', PStr ''NAVIGATE''),
                                   (''target'', PStr ''/trust''),
                                   (''message'', PStr ''Let's check your trust score.'')])) tr
               else
                 then_do (analyze ''No specific database action required for this intent.'' 0.8)
                   (then_do (conclude ''Action execution complete'' 0.85)
                      (\<lambda>tr. (tr, Inr []))) tr) tr"
    unfolding action_body_def i0 sum.case Let_def intent_def by (rule refl)
  from then_do_result [OF assms(1) [unfolded this]] obtain tr1 where
    body: "(if intent = PStr ''loan_request'' then
              (case create_loan_draft ctx tr1 of
                 (tr', Inl e) \<Rightarrow> (tr', Inl e)
               | (tr', Inr data) \<Rightarrow>
                   then_do (conclude ''Action execution complete'' 0.85)
                     (\<lambda>tr. (tr, Inr data)) tr')
            else if intent = PStr ''check_score'' then
              then_do (conclude ''Action execution complete'' 0.85)
                (\<lambda>tr. (tr, Inr [(''action'', PStr ''NAVIGATE''),
                                (''target'', PStr ''/trust''),
                                (''message'', PStr ''Let's check your trust score.'')])) tr1
            else
              then_do (analyze ''No specific database action required for this intent.'' 0.8)
                (then_do (conclude ''Action execution complete'' 0.85)
                   (\<lambda>tr. (tr, Inr []))) tr1) = (tr', Inr d)"
    by blast
  show ?thesis
  proof (cases "intent = PStr ''loan_request''")
    case True
    with body obtain tr2 data where
      draft: "create_loan_draft ctx tr1 = (tr2, Inr data)"
      and fin: "then_do (conclude ''Action execution complete'' 0.85) (\<lambda>tr. (tr, Inr data)) tr2 = (tr', Inr d)"
      by (auto split: prod.splits sum.splits)
    from then_do_return [OF fin] have "data = d" .
    with create_loan_draft_guide_flow [OF draft] assms(2) show ?thesis by simp
  next
    case False
    with body have "d = [(''action'', PStr ''NAVIGATE''), (''target'', PStr ''/trust''),
                         (''message'', PStr ''Let's check your trust score.'')] \<or> d = []"
      by (cases "intent = PStr ''check_score''")
         (auto dest: then_do_return then_do_then_do_return)
    with assms(2) show ?thesis by (auto simp: dict_get_def)
  qed
qed

lemma action_agent_guide_flow:
  assumes "dict_get (result (fst (action_agent_execute ctx))) ''action'' PNone = PStr ''GUIDE_FLOW''"
  shows "dict_get (result (fst (action_agent_execute ctx))) ''target'' PNone = PNone \<and>
         dict_get (result (fst (action_agent_execute ctx))) ''screen'' PNone = PStr ''/loans/apply''"
proof (cases "action_body ctx (create_trace ''ActionAgent'' ''Processing action for request'')")
  case (Pair tr' r)
  show ?thesis
  proof (cases r)
    case (Inl e)
    with Pair assms show ?thesis
      by (simp add: action_agent_execute_def agent_failure_def dict_get_def split: sum.splits)
  next
    case (Inr d)
    with Pair assms have "dict_get d ''action'' PNone = PStr ''GUIDE_FLOW''"
      by (simp add: action_agent_execute_def)
    from action_body_guide_flow [OF Pair [unfolded Inr] this] Pair Inr show ?thesis
      by (simp add: action_agent_execute_def)
  qed
qed

lemma synthesize_after_guide_flow:
  assumes "dict_get (result (fst (action_agent_execute ctx))) ''action'' PNone = PStr ''GUIDE_FLOW''"
  shows "\<exists>d. synthesize_response (store_result ''ActionAgent'' (fst (action_agent_execute ctx)) ctx)
               = Inr d \<and>
             dict_get d ''action'' PNone = PStr ''GUIDE_FLOW'' \<and>
             dict_get d ''target'' PNone = PNone"
proof -
  have stored: "dict_get (agent_results (store_result ''ActionAgent'' (fst (action_agent_execute ctx)) ctx))
          ''ActionAgent'' (PDict []) = PDict (result (fst (action_agent_execute ctx)))"
    by (simp add: store_result_def dict_get_dict_set)
  have truthy: "py_truthy (dict_get (result (fst (action_agent_execute ctx))) ''action'' PNone)"
    using assms by simp
  from synthesize_action_present [OF stored truthy] action_agent_guide_flow [OF assms] assms
  show ?thesis by (simp add: dict_get_def)
qed

text \<open>
  Claim C6 against the code: for the chat turn of a loan request the ActionAgent returns
  a \<open>GUIDE_FLOW\<close> whose screen \<open>/loans/apply\<close> is stored under the key \<open>screen\<close>, while
  the synthesizer reads the key \<open>target\<close>.  The synthesized response carries the action,
  the prefilled data and the three guide steps, and its \<open>target\<close> is \<open>None\<close>.
\<close>

theorem synthesize_guide_flow_target_lost:
  "synthesize_response
      (store_result ''ActionAgent'' (fst (action_agent_execute loan_request_context))
         loan_request_context) =
   Inr [(''message'', PStr ''I'm on it!''),
        (''action'', PStr ''GUIDE_FLOW''),
        (''target'', PNone),
        (''data'', PDict [(''amount'', PInt 10000), (''circle_id'', PStr ''circle-1''),
                          (''purpose'', PStr ''Emergency Support'')]),
        (''guide_steps'', PList
           [PDict [(''text'', PFmt ''I've selected the '{}' circle for you.'' [PStr ''Neighbours'']),
                   (''target'', PStr ''#circle-select''), (''overlay'', PBool True)],
            PDict [(''text'', PFmt ''I've filled in Rs {} (your safe limit).'' [PInt 10000]),
                   (''target'', PStr ''#amount-input''), (''overlay'', PBool True)],
            PDict [(''text'', PStr ''Just click here to submit!''),
                   (''target'', PStr ''#submit-btn''), (''overlay'', PBool True)]])] \<and>
   dict_get (result (fst (action_agent_execute loan_request_context))) ''screen'' PNone
     = PStr ''/loans/apply''"
  by (simp add: action_eval)

section \<open>RiskOracle: the income stability factor\<close>

lemma stability_score_code:
  assumes "xs \<noteq> []"
  shows "stability_score xs =
     (let mean = sum_list xs / real (length xs) in
      if mean > 0 then
        (let variance = sum_list (map (\<lambda>x. (x - mean)\<^sup>2) xs) / real (length xs);
             std_dev = sqrt variance;
             cv = std_dev / mean
         in max 0.3 (min 1.0 (1.0 - cv * 0.7)))
      else 0.3)"
  by (simp add: stability_score_def population_cv_def Let_def algebra_simps not_less)

lemma stability_score_range: "3 / 10 \<le> stability_score xs \<and> stability_score xs \<le> 1"
proof -
  have "3 / 10 \<le> max (3 / 10) y \<and> max (3 / 10) (min 1 y) \<le> 1" for y :: real
    by simp
  then show ?thesis
    unfolding stability_score_def by (cases "sum_list xs / real (length xs) \<le> 0") simp_all
qed

lemma sqrt_10000: "sqrt 10000 = 100"
  by (rule real_sqrt_unique) simp_all

lemmas income_eval =
  income_at_def is_income_entry_def counted_recent_def float_amount_def thirty_days_def
  stability_score_def population_cv_def

text \<open>
  Claim C5, as stated, fails: the factor is computed only from a diary of at least four
  income entries.  Two income entries of 100 each, both recorded now, have a coefficient
  of variation of 0, for which the claim gives 1.0; the code returns 0.3.
\<close>

theorem income_stability_two_entries_counterexample:
  "income_stability 0 [income_at 0 100, income_at 0 100] = 3 / 10 \<and>
   income_stability_spec 0 [income_at 0 100, income_at 0 100] = 1"
  by (simp add: income_stability_def income_stability_spec_def within_30_days_def income_eval)

text \<open>
  Claim C5, amended: with fewer than four income entries the factor is 0.3, whatever their
  dates.  With at least four, the samples are the amounts of the income entries recorded
  at most 30 days ago or carrying a \<open>recorded_at\<close> that does not parse; with at least two
  samples the factor is \<open>clamp(1 - 0.7 cv, 0.3, 1.0)\<close> for the population coefficient of
  variation \<open>cv\<close> of the samples (0.3 when their mean is \<open>\<le> 0\<close>), with fewer it is 0.4.
  The factor always lies between 0.3 and 1.
\<close>

theorem income_stability_by_cases:
  "income_stability now diary =
     (if length (filter is_income_entry diary) < 4 then 3 / 10
      else if length (filter (counted_recent now) (filter is_income_entry diary)) \<ge> 2
        then stability_score
               (map float_amount (filter (counted_recent now) (filter is_income_entry diary)))
        else 4 / 10) \<and>
   3 / 10 \<le> income_stability now diary \<and> income_stability now diary \<le> 1"
proof -
  let ?recent = "map float_amount (filter (counted_recent now) (filter is_income_entry diary))"
  have eq: "income_stability now diary =
     (if length (filter is_income_entry diary) < 4 then 3 / 10
      else if length (filter (counted_recent now) (filter is_income_entry diary)) \<ge> 2
        then stability_score ?recent
        else 4 / 10)"
  proof (cases "length ?recent \<ge> 2")
    case True
    then have ne: "?recent \<noteq> []" by auto
    show ?thesis
      unfolding income_stability_def Let_def stability_score_code [OF ne, unfolded Let_def]
      using True ne by (simp add: not_less)
  next
    case False
    then show ?thesis
      by (simp add: income_stability_def Let_def not_less)
  qed
  have "3 / 10 \<le> income_stability now diary \<and> income_stability now diary \<le> 1"
    unfolding eq using stability_score_range [of ?recent] by simp
  with eq show ?thesis by blast
qed

theorem income_stability_by_cases_witness:
  "income_stability 0 [income_at 0 100, income_at 0 300, income_at 0 100, income_at 0 300]
     = 65 / 100"
  using income_stability_by_cases
          [of 0 "[income_at 0 100, income_at 0 300, income_at 0 100, income_at 0 300]"]
  by (simp add: income_eval sqrt_10000)


section \<open>Circuit breaker\<close>

lemma timedelta_seconds_small:
  assumes "0 \<le> d" "d < 86400000000"
  shows "timedelta_seconds d = d div 1000000"
  using assms by (simp add: timedelta_seconds_def)

lemma open_fails_fast:
  assumes "state cb = OPEN" "last_failure_time cb = Some t0"
      and "0 \<le> t - t0" "t - t0 < recovery_timeout cb * 1000000"
  shows "guarded_call t t' out cb = (cb, FailedFast)"
proof -
  have "(t - t0) mod 86400000000 \<le> t - t0"
    using assms(3) by (simp add: zmod_le_nonneg_dividend)
  then have "(t - t0) mod 86400000000 < recovery_timeout cb * 1000000"
    using assms(4) by linarith
  then have "timedelta_seconds (t - t0) < recovery_timeout cb"
    unfolding timedelta_seconds_def by (simp add: div_less_iff_less_mult)
  then show ?thesis
    using assms(1,2) by (simp add: guarded_call_def aenter_def Let_def)
qed

lemma open_lets_probe_through:
  assumes "state cb = OPEN" "last_failure_time cb = Some t0"
      and "recovery_timeout cb * 1000000 \<le> t - t0" "t - t0 < 86400000000"
      and "0 \<le> recovery_timeout cb"
  shows "guarded_call t t' out cb =
           (aexit t' out (cb \<lparr>state := HALF_OPEN, success_count := 0\<rparr>), Invoked out)"
proof -
  have "0 \<le> recovery_timeout cb * 1000000" using assms(5) by simp
  then have nonneg: "0 \<le> t - t0" using assms(3) by linarith
  have "(recovery_timeout cb * 1000000) div 1000000 \<le> (t - t0) div 1000000"
    using assms(3) by (rule zdiv_mono1) simp
  then have "recovery_timeout cb \<le> (t - t0) div 1000000"
    by simp
  then have "recovery_timeout cb \<le> timedelta_seconds (t - t0)"
    using timedelta_seconds_small [OF nonneg assms(4)] by simp
  then show ?thesis
    using assms(1,2) by (simp add: guarded_call_def aenter_def Let_def)
qed

lemma half_open_lets_through:
  assumes "state cb = HALF_OPEN"
  shows "guarded_call t t' out cb = (aexit t' out cb, Invoked out)"
  using assms by (simp add: guarded_call_def aenter_def)

lemma closed_lets_through:
  assumes "state cb = CLOSED"
  shows "guarded_call t t' out cb = (aexit t' out cb, Invoked out)"
  using assms by (simp add: guarded_call_def aenter_def)

lemma closed_failures:
  assumes "state cb = CLOSED" "0 \<le> failure_count cb"
      and "\<forall>c\<in>set calls. snd (snd c) = Raises"
      and "failure_count cb + int (length calls) < failure_threshold cb"
  shows "guarded_calls calls cb =
           (cb \<lparr> failure_count := failure_count cb + int (length calls),
                 last_failure_time :=
                   (if calls = [] then last_failure_time cb else Some (fst (snd (last calls)))) \<rparr>,
            map (\<lambda>c. Invoked Raises) calls)"
  using assms
proof (induction calls arbitrary: cb)
  case Nil
  show ?case by simp
next
  case (Cons c calls)
  obtain te tx out where c: "c = (te, tx, out)" by (cases c)
  with Cons.prems(3) have out: "out = Raises" by simp
  let ?cb1 = "cb \<lparr> failure_count := failure_count cb + 1, last_failure_time := Some tx \<rparr>"
  have step: "guarded_call te tx Raises cb = (?cb1, Invoked Raises)"
    using Cons.prems(1,2,4)
    by (simp add: closed_lets_through aexit_def record_failure_def Let_def)
  have "guarded_calls calls ?cb1 =
           (?cb1 \<lparr> failure_count := failure_count ?cb1 + int (length calls),
                 last_failure_time :=
                   (if calls = [] then last_failure_time ?cb1 else Some (fst (snd (last calls)))) \<rparr>,
            map (\<lambda>c. Invoked Raises) calls)"
    using Cons.prems by (intro Cons.IH) auto
  then show ?case
    by (simp add: c out step)
qed

lemma guarded_calls_snoc:
  "guarded_calls (xs @ [(te, tx, out)]) b =
     (fst (guarded_call te tx out (fst (guarded_calls xs b))),
      snd (guarded_calls xs b) @ [snd (guarded_call te tx out (fst (guarded_calls xs b)))])"
  by (induction xs arbitrary: b) (auto simp: Let_def split: prod.splits)

lemma threshold_failures_open:
  assumes "state cb = CLOSED" "failure_count cb = 0" "1 \<le> failure_threshold cb"
      and "int (length calls) = failure_threshold cb"
      and "\<forall>c\<in>set calls. snd (snd c) = Raises"
  shows "guarded_calls calls cb =
           (cb \<lparr> failure_count := failure_threshold cb,
                 last_failure_time := Some (fst (snd (last calls))),
                 state := OPEN \<rparr>,
            map (\<lambda>c. Invoked Raises) calls)"
proof -
  from assms(3,4) have ne: "calls \<noteq> []" by auto
  then obtain front c where calls: "calls = front @ [c]" by (cases calls rule: rev_cases) auto
  obtain te tx out where c: "c = (te, tx, out)" by (cases c)
  with assms(5) calls have out: "out = Raises" by simp
  have len: "int (length front) = failure_threshold cb - 1" using assms(4) calls by simp
  have front: "guarded_calls front cb =
           (cb \<lparr> failure_count := failure_count cb + int (length front),
                 last_failure_time :=
                   (if front = [] then last_failure_time cb else Some (fst (snd (last front)))) \<rparr>,
            map (\<lambda>c. Invoked Raises) front)"
    using assms(1,2,5) len calls by (intro closed_failures) auto
  show ?thesis
    unfolding calls c out guarded_calls_snoc front
    using assms(1,2) len
    by (simp add: closed_lets_through aexit_def record_failure_def Let_def)
qed

lemma half_open_exit:
  assumes "state hb = HALF_OPEN"
  shows "state (aexit t' Raises hb) = OPEN"
    and "success_count hb + 1 < success_threshold hb \<Longrightarrow> state (aexit t' Returns hb) = HALF_OPEN"
    and "success_threshold hb \<le> success_count hb + 1 \<Longrightarrow> state (aexit t' Returns hb) = CLOSED"
  using assms by (simp_all add: aexit_def record_failure_def record_success_def Let_def)

lemmas breaker_eval =
  payments_breaker_def new_breaker_def five_failures_def guarded_call_def aenter_def aexit_def
  record_failure_def record_success_def timedelta_seconds_def Let_def

text \<open>
  Claim C7, as stated, fails in its last part: once the recovery timeout has elapsed the
  breaker turns half-open and lets every call through, not exactly one.  After five
  failures of the payments breaker, a call at 40 s returns and leaves the breaker
  half-open (two successes are needed to close it), and the call at 41 s is let through
  as well; two callers entering at the same instant are both admitted.
\<close>

theorem circuit_breaker_two_probes_counterexample:
  "snd (guarded_calls (five_failures @ [(40000000, 40000000, Returns), (41000000, 41000000, Returns)])
          payments_breaker) =
     [Invoked Raises, Invoked Raises, Invoked Raises, Invoked Raises, Invoked Raises,
      Invoked Returns, Invoked Returns] \<and>
   state (fst (guarded_calls (five_failures @ [(40000000, 40000000, Returns)]) payments_breaker))
     = HALF_OPEN \<and>
   aenter 40000000 (fst (guarded_calls five_failures payments_breaker)) =
     Inr (fst (guarded_calls five_failures payments_breaker) \<lparr>state := HALF_OPEN, success_count := 0\<rparr>) \<and>
   aenter 40000000
     (fst (guarded_calls five_failures payments_breaker) \<lparr>state := HALF_OPEN, success_count := 0\<rparr>) =
     Inr (fst (guarded_calls five_failures payments_breaker) \<lparr>state := HALF_OPEN, success_count := 0\<rparr>)"
  by (simp add: breaker_eval)

text \<open>
  Claim C7, amended: after \<open>failure_threshold\<close> (at least 1) consecutive failures of a
  closed breaker, each of which was invoked, the breaker is open; every call made while
  fewer than \<open>recovery_timeout\<close> seconds have elapsed since the last failure fails fast
  and leaves the breaker as it is; a call made once \<open>recovery_timeout\<close> seconds but less
  than one day have elapsed turns the breaker half-open and is invoked; and a half-open
  breaker invokes every call, a failure re-opening it and \<open>success_threshold\<close> successes
  closing it.
\<close>

theorem circuit_breaker_opens_and_probes:
  assumes "state cb = CLOSED" "failure_count cb = 0"
      and "1 \<le> failure_threshold cb" "0 \<le> recovery_timeout cb"
      and "int (length calls) = failure_threshold cb"
      and "\<forall>c\<in>set calls. snd (snd c) = Raises"
  shows "snd (guarded_calls calls cb) = map (\<lambda>c. Invoked Raises) calls \<and>
         state (fst (guarded_calls calls cb)) = OPEN \<and>
         last_failure_time (fst (guarded_calls calls cb)) = Some (fst (snd (last calls))) \<and>
         (\<forall>t t' out.
            0 \<le> t - fst (snd (last calls)) \<and>
            t - fst (snd (last calls)) < recovery_timeout cb * 1000000 \<longrightarrow>
            guarded_call t t' out (fst (guarded_calls calls cb)) =
              (fst (guarded_calls calls cb), FailedFast)) \<and>
         (\<forall>t t' out.
            recovery_timeout cb * 1000000 \<le> t - fst (snd (last calls)) \<and>
            t - fst (snd (last calls)) < 86400000000 \<longrightarrow>
            guarded_call t t' out (fst (guarded_calls calls cb)) =
              (aexit t' out (fst (guarded_calls calls cb) \<lparr>state := HALF_OPEN, success_count := 0\<rparr>),
               Invoked out)) \<and>
         (\<forall>hb t t' out.
            state hb = HALF_OPEN \<longrightarrow>
            guarded_call t t' out hb = (aexit t' out hb, Invoked out) \<and>
            state (aexit t' Raises hb) = OPEN \<and>
            (success_count hb + 1 < success_threshold hb \<longrightarrow>
               state (aexit t' Returns hb) = HALF_OPEN) \<and>
            (success_threshold hb \<le> success_count hb + 1 \<longrightarrow>
               state (aexit t' Returns hb) = CLOSED))"
proof -
  let ?cb' = "cb \<lparr> failure_count := failure_threshold cb,
                    last_failure_time := Some (fst (snd (last calls))),
                    state := OPEN \<rparr>"
  have run: "guarded_calls calls cb = (?cb', map (\<lambda>c. Invoked Raises) calls)"
    using assms(1,2,3,5,6) by (rule threshold_failures_open)
  have fast: "guarded_call t t' out ?cb' = (?cb', FailedFast)"
    if "0 \<le> t - fst (snd (last calls))"
       "t - fst (snd (last calls)) < recovery_timeout cb * 1000000" for t t' out
    using that by (intro open_fails_fast) simp_all
  have probe: "guarded_call t t' out ?cb' =
                 (aexit t' out (?cb' \<lparr>state := HALF_OPEN, success_count := 0\<rparr>), Invoked out)"
    if "recovery_timeout cb * 1000000 \<le> t - fst (snd (last calls))"
       "t - fst (snd (last calls)) < 86400000000" for t t' out
    using that assms(4) by (intro open_lets_probe_through) simp_all
  show ?thesis
    unfolding run fst_conv snd_conv
    using fast probe half_open_lets_through half_open_exit
    by (intro conjI allI impI) (simp_all)
qed

theorem circuit_breaker_opens_and_probes_witness:
  "state payments_breaker = CLOSED \<and> int (length five_failures) = failure_threshold payments_breaker \<and>
   state (fst (guarded_calls five_failures payments_breaker)) = OPEN \<and>
   snd (guarded_call 33000000 33000000 Returns (fst (guarded_calls five_failures payments_breaker)))
     = FailedFast \<and>
   snd (guarded_call 34000000 34000000 Returns (fst (guarded_calls five_failures payments_breaker)))
     = Invoked Returns"
proof -
  have pre: "state payments_breaker = CLOSED" "failure_count payments_breaker = 0"
    "1 \<le> failure_threshold payments_breaker" "0 \<le> recovery_timeout payments_breaker"
    "int (length five_failures) = failure_threshold payments_breaker"
    "\<forall>c\<in>set five_failures. snd (snd c) = Raises"
    by (simp_all add: payments_breaker_def new_breaker_def five_failures_def)
  have last: "fst (snd (last five_failures)) = 4000000" "recovery_timeout payments_breaker = 30"
    by (simp_all add: five_failures_def payments_breaker_def new_breaker_def)
  note main = circuit_breaker_opens_and_probes [OF pre, unfolded last]
  have a: "snd (guarded_call 33000000 33000000 Returns (fst (guarded_calls five_failures payments_breaker)))
     = FailedFast"
    using main by simp
  have b: "snd (guarded_call 34000000 34000000 Returns (fst (guarded_calls five_failures payments_breaker)))
     = Invoked Returns"
    using main by simp
  show ?thesis using pre main a b by simp
qed

text \<open>
  \<open>__aenter__\<close> reads \<open>timedelta.seconds\<close>, which drops whole days: one day and five
  seconds after the last failure the elapsed time counts as 5 s and the call still fails
  fast.
\<close>

lemma timedelta_seconds_wraps_after_a_day:
  "snd (guarded_call 86409000000 86409000000 Returns
          (fst (guarded_calls five_failures payments_breaker))) = FailedFast"
  by (simp add: breaker_eval)

section \<open>Repayment webhooks\<close>

text \<open>
  With the repository's store object \<open>process_repayment\<close> raises on its first line, the
  lookup of \<open>get_loan\<close>, and \<open>process_payment_failed\<close> on its lookup of \<open>create_repayment\<close>;
  neither has written anything by then.
\<close>

lemma process_repayment_supabase_service:
  "process_repayment supabase_service chain st lid amt pid = (st, Inl AttributeError)"
  by (simp add: process_repayment_def supabase_service_def)

lemma process_payment_completed_supabase_service:
  "process_payment_completed supabase_service chain st pd = st"
  by (simp add: process_payment_completed_def process_repayment_supabase_service)

lemma process_payment_failed_supabase_service:
  "process_payment_failed supabase_service st pd = st"
  by (simp add: process_payment_failed_def supabase_service_def)

text \<open>
  \<open>process_repayment\<close> itself never looks at the repayments already recorded before it
  writes: on a store object that has all six methods (and \<open>update_trust_score\<close> with four
  parameters), with no blockchain client configured, a repayment for a loan that exists
  goes through \<open>create_repayment\<close> and \<open>update_trust_score\<close> whatever the payment id is.
\<close>

lemma process_repayment_complete_store:
  assumes "get_loan db = Some get" "get st lid = Some loan"
      and "create_repayment db = Some create"
      and "update_trust_score db = Some (TakesFour f)"
      and "get_loan_repayments db = Some list_repayments"
      and "update_loan db = Some set_status"
      and "\<not> is_configured chain"
  shows "fst (process_repayment db chain st lid amt pid) =
           (let st3 = f (snd (create st lid amt pid ''completed'')) (borrower_id loan) 5
                        ''On-time repayment'' None
            in if sum_list (map repaid_amount (list_repayments st3 lid)) \<ge> principal loan * 1.1
               then set_status st3 lid ''completed'' else st3)"
  using assms
  by (simp add: process_repayment_def truthy_id_def Let_def split: prod.splits)

text \<open>
  Claim C4: with the repository's store object a webhook delivery, of any event type and
  whether or not its signature verifies, leaves the store as it found it.  So for every delivery whose payment id
  already has a recorded repayment, processing it creates no second repayment record
  with that id and applies no trust-score delta: the history and the profiles' scores
  are unchanged.
\<close>

theorem handle_webhook_creates_no_second_repayment:
  "fst (handle_webhook supabase_service chain signature_ok ev st) = st \<and>
   ((\<exists>r \<in> set (repayments st). dodo_payment_id r = payment_id (payment ev)) \<longrightarrow>
      length (filter (\<lambda>r. dodo_payment_id r = payment_id (payment ev))
                (repayments (fst (handle_webhook supabase_service chain signature_ok ev st)))) =
        length (filter (\<lambda>r. dodo_payment_id r = payment_id (payment ev)) (repayments st)) \<and>
      trust_score_history (fst (handle_webhook supabase_service chain signature_ok ev st)) =
        trust_score_history st \<and>
      profile_trust (fst (handle_webhook supabase_service chain signature_ok ev st)) =
        profile_trust st)"
proof -
  have "fst (handle_webhook supabase_service chain signature_ok ev st) = st"
    by (simp add: handle_webhook_def process_payment_completed_supabase_service
          process_payment_failed_supabase_service)
  thus ?thesis by simp
qed

theorem handle_webhook_creates_no_second_repayment_witness:
  "(\<exists>r \<in> set (repayments store_with_p42). dodo_payment_id r = payment_id (payment p42_event)) \<and>
   fst (handle_webhook supabase_service no_blockchain True p42_event store_with_p42) =
     store_with_p42 \<and>
   map dodo_payment_id
     (repayments (fst (handle_webhook supabase_service no_blockchain True p42_event
                         store_with_p42))) = [''p-42''] \<and>
   trust_score_history
     (fst (handle_webhook supabase_service no_blockchain True p42_event store_with_p42)) =
     [(''borrower-1'', 65, ''On-time repayment'')]"
  using handle_webhook_creates_no_second_repayment
          [of no_blockchain True p42_event store_with_p42]
  by (simp add: store_with_p42_def p42_event_def)

end
